theory Spec2Isabelle
  imports Complex_Main "HOL-Library.AList" "HOL-Library.Sublist"
begin

section \<open>JavaScript values\<close>

text \<open>
  The pipeline handles values that come out of \<^verbatim>\<open>JSON.parse\<close> (HTTP response bodies, the
  LLM reply, the JSON-encoded outcome arrays of a market), so a runtime value is a JSON
  value. \<^verbatim>\<open>undefined\<close> (an absent property, an index past the end) is \<open>None\<close> of an
  option type.  Numbers are exact rationals: IEEE rounding, overflow to Infinity and the
  sign of zero are outside the model; \<^verbatim>\<open>NaN\<close>, which only conversions produce, is the
  extra element of \<open>jsnum\<close>.  Strings are character lists.

  An object is its list of own properties in insertion order; the first binding of a key
  is the effective one.
\<close>

datatype json =
    JNull
  | JBool bool
  | JNum rat
  | JStr string
  | JArr "json list"
  | JObj "(string \<times> json) list"

datatype jsnum = NaN | Num rat

datatype js_error =
    TypeError
  | SyntaxError
  | Error string
  | Rejected string
  | ThrownNull

text \<open>
  Four functions of the runtime are not part of the repository.  They are parameters of
  the model, so that every theorem below holds whatever they compute:
  \<^item> \<open>StringToNumber\<close>: the numeric value of a string (\<^verbatim>\<open>Number(s)\<close>, \<^verbatim>\<open>isNaN(s)\<close>, \<^verbatim>\<open>s * f\<close>);
  \<^item> \<open>NumberToString\<close>: the string of a number (\<^verbatim>\<open>String(n)\<close>, template literals);
  \<^item> \<open>JSON_parse\<close>: \<^verbatim>\<open>JSON.parse\<close>, \<open>None\<close> when it throws a SyntaxError;
  \<^item> \<open>parseFloat_str\<close>: \<^verbatim>\<open>parseFloat\<close> on a string.
\<close>

record builtins =
  StringToNumber :: "string \<Rightarrow> jsnum"
  NumberToString :: "rat \<Rightarrow> string"
  JSON_parse :: "string \<Rightarrow> json option"
  parseFloat_str :: "string \<Rightarrow> jsnum"

text \<open>\<^verbatim>\<open>ToBoolean\<close>: what \<^verbatim>\<open>!v\<close> and \<^verbatim>\<open>v || d\<close> test.\<close>

fun truthy :: "json \<Rightarrow> bool" where
  "truthy JNull = False"
| "truthy (JBool b) = b"
| "truthy (JNum r) = (r \<noteq> 0)"
| "truthy (JStr s) = (s \<noteq> [])"
| "truthy (JArr xs) = True"
| "truthy (JObj kvs) = True"

definition truthy_opt :: "json option \<Rightarrow> bool" where
  "truthy_opt v = (case v of None \<Rightarrow> False | Some x \<Rightarrow> truthy x)"

text \<open>\<^verbatim>\<open>v || d\<close> on a possibly undefined \<open>v\<close> and a defined \<open>d\<close>.\<close>

definition or_else :: "json option \<Rightarrow> json \<Rightarrow> json" where
  "or_else v d = (case v of None \<Rightarrow> d | Some x \<Rightarrow> if truthy x then x else d)"

text \<open>\<^verbatim>\<open>typeof v === 'object'\<close>: true of objects, arrays and \<^verbatim>\<open>null\<close>.\<close>

fun typeof_object :: "json \<Rightarrow> bool" where
  "typeof_object JNull = True"
| "typeof_object (JArr xs) = True"
| "typeof_object (JObj kvs) = True"
| "typeof_object v = False"

definition has_own :: "(string \<times> json) list \<Rightarrow> string \<Rightarrow> bool" where
  "has_own kvs k = (k \<in> set (map fst kvs))"

text \<open>
  \<^verbatim>\<open>ToString\<close>.  An array joins the strings of its elements with a comma, \<^verbatim>\<open>null\<close>
  elements giving the empty string.  A parsed object inherits \<^verbatim>\<open>Object.prototype.toString\<close>
  and prints as \<^verbatim>\<open>[object Object]\<close>, unless it has an own property \<^verbatim>\<open>toString\<close>: a JSON
  value is never callable, so the conversion finds no method and throws a TypeError.
\<close>

fun ToString :: "builtins \<Rightarrow> json \<Rightarrow> js_error + string"
  and join_elems :: "builtins \<Rightarrow> json list \<Rightarrow> js_error + string" where
  "ToString B JNull = Inr ''null''"
| "ToString B (JBool b) = Inr (if b then ''true'' else ''false'')"
| "ToString B (JNum r) = Inr (NumberToString B r)"
| "ToString B (JStr s) = Inr s"
| "ToString B (JArr xs) = join_elems B xs"
| "ToString B (JObj kvs) =
     (if has_own kvs ''toString'' then Inl TypeError else Inr ''[object Object]'')"
| "join_elems B [] = Inr []"
| "join_elems B (x # xs) =
     (case (if x = JNull then Inr [] else ToString B x) of
        Inl e \<Rightarrow> Inl e
      | Inr s \<Rightarrow>
          (if xs = [] then Inr s
           else (case join_elems B xs of
                   Inl e \<Rightarrow> Inl e
                 | Inr t \<Rightarrow> Inr (s @ '','' @ t))))"

text \<open>\<^verbatim>\<open>ToNumber\<close>: what \<^verbatim>\<open>Number(v)\<close>, \<^verbatim>\<open>isNaN(v)\<close> and \<^verbatim>\<open>v * f\<close> apply to \<open>v\<close>.\<close>

definition ToNumber :: "builtins \<Rightarrow> json \<Rightarrow> js_error + jsnum" where
  "ToNumber B v =
     (case v of
        JNull \<Rightarrow> Inr (Num 0)
      | JBool b \<Rightarrow> Inr (Num (if b then 1 else 0))
      | JNum r \<Rightarrow> Inr (Num r)
      | JStr s \<Rightarrow> Inr (StringToNumber B s)
      | _ \<Rightarrow> (case ToString B v of
                Inl e \<Rightarrow> Inl e
              | Inr s \<Rightarrow> Inr (StringToNumber B s)))"

definition ToNumber_opt :: "builtins \<Rightarrow> json option \<Rightarrow> js_error + jsnum" where
  "ToNumber_opt B v = (case v of None \<Rightarrow> Inr NaN | Some x \<Rightarrow> ToNumber B x)"

text \<open>\<^verbatim>\<open>n || d\<close> on numbers: \<^verbatim>\<open>NaN\<close> and \<open>0\<close> are the falsy ones.\<close>

definition num_or :: "jsnum \<Rightarrow> rat \<Rightarrow> rat" where
  "num_or n d = (case n of NaN \<Rightarrow> d | Num r \<Rightarrow> if r = 0 then d else r)"

subsection \<open>Decimal rendering of integers\<close>

definition digit_char :: "nat \<Rightarrow> char" where
  "digit_char d = ''0123456789'' ! d"

function show_nat :: "nat \<Rightarrow> string" where
  "show_nat n = (if n < 10 then [digit_char n] else show_nat (n div 10) @ [digit_char (n mod 10)])"
  by pat_completeness auto
termination
  by (relation "measure id") auto

declare show_nat.simps [simp del]

definition digit_val :: "char \<Rightarrow> nat" where
  "digit_val c =
     (case map_of (zip ''0123456789'' [0, 1, 2, 3, 4, 5, 6, 7, 8, 9]) c of
        None \<Rightarrow> 0
      | Some d \<Rightarrow> d)"

definition read_nat :: "string \<Rightarrow> nat" where
  "read_nat s = foldl (\<lambda>a c. 10 * a + digit_val c) 0 s"

definition show_int :: "int \<Rightarrow> string" where
  "show_int i = (if i < 0 then CHR ''-'' # show_nat (nat (- i)) else show_nat (nat i))"

subsection \<open>Own properties\<close>

text \<open>
  \<^verbatim>\<open>v[k]\<close> on a value that is not \<^verbatim>\<open>null\<close>, as far as own data properties go: the
  properties of an object, the elements and the length of an array, the length and the
  characters of a string.  Inherited members (methods, \<^verbatim>\<open>constructor\<close>) are functions or
  prototype objects, never numbers, and the only inherited array,
  \<^verbatim>\<open>Array.prototype\<close>, is empty; the code below only asks whether the property is a
  number or an array with elements, so reading them as undefined changes no result.
\<close>

definition index_of_key :: "nat \<Rightarrow> string \<Rightarrow> nat option" where
  "index_of_key n k = List.find (\<lambda>i. show_nat i = k) [0..<n]"

fun get_field :: "json \<Rightarrow> string \<Rightarrow> json option" where
  "get_field (JObj kvs) k = map_of kvs k"
| "get_field (JArr xs) k =
     (if k = ''length'' then Some (JNum (of_nat (length xs)))
      else map_option (\<lambda>i. xs ! i) (index_of_key (length xs) k))"
| "get_field (JStr s) k =
     (if k = ''length'' then Some (JNum (of_nat (length s)))
      else map_option (\<lambda>i. JStr [s ! i]) (index_of_key (length s) k))"
| "get_field v k = None"

section \<open>Utilities (lib/utils/utils)\<close>

text \<open>\<^verbatim>\<open>Math.round\<close> in exact arithmetic: the nearest integer, a tie going up.\<close>

definition Math_round :: "rat \<Rightarrow> rat" where
  "Math_round x = of_int \<lfloor>x + 1 / 2\<rfloor>"

definition round_to :: "nat \<Rightarrow> rat \<Rightarrow> rat" where
  "round_to decimals v = Math_round (v * 10 ^ decimals) / 10 ^ decimals"

text \<open>
  \<^verbatim>\<open>roundOrNull(value, decimals)\<close>.  The declared argument type is a number, null or
  undefined, but the aggregator passes elements of upstream arrays, so the argument is
  any value; \<^verbatim>\<open>isNaN\<close> and \<^verbatim>\<open>*\<close> convert it with \<^verbatim>\<open>ToNumber\<close>.
\<close>

definition roundOrNull :: "builtins \<Rightarrow> json option \<Rightarrow> nat \<Rightarrow> js_error + rat option" where
  "roundOrNull B v decimals =
     (case v of
        None \<Rightarrow> Inr None
      | Some JNull \<Rightarrow> Inr None
      | Some x \<Rightarrow>
          (case ToNumber B x of
             Inl e \<Rightarrow> Inl e
           | Inr NaN \<Rightarrow> Inr None
           | Inr (Num r) \<Rightarrow> Inr (Some (round_to decimals r))))"

text \<open>\<^verbatim>\<open>roundSeries(values, decimals)\<close>: the filter, then the map.\<close>

fun series_filter :: "builtins \<Rightarrow> json list \<Rightarrow> js_error + rat list" where
  "series_filter B [] = Inr []"
| "series_filter B (v # vs) =
     (if v = JNull then series_filter B vs
      else (case ToNumber B v of
              Inl e \<Rightarrow> Inl e
            | Inr NaN \<Rightarrow> series_filter B vs
            | Inr (Num r) \<Rightarrow>
                (case series_filter B vs of
                   Inl e \<Rightarrow> Inl e
                 | Inr rs \<Rightarrow> Inr (r # rs))))"

definition roundSeries :: "builtins \<Rightarrow> json list \<Rightarrow> nat \<Rightarrow> js_error + rat list" where
  "roundSeries B vs decimals =
     (case series_filter B vs of
        Inl e \<Rightarrow> Inl e
      | Inr rs \<Rightarrow> Inr (map (round_to decimals) rs))"

text \<open>
  \<^verbatim>\<open>retry(fn, options)\<close>.  The operation is the sequence of its outcomes: \<open>fn k\<close> is what
  its \<open>k\<close>-th invocation does, \<open>Inl\<close> a rejection and \<open>Inr\<close> a value.  The state threaded
  through the loop is \<^verbatim>\<open>lastError\<close>, the delays waited so far and the number of
  invocations made.  \<^verbatim>\<open>throw lastError\<close> throws \<^verbatim>\<open>null\<close> when the loop body never ran.
\<close>

record RetryOptions =
  maxAttempts :: "nat option"
  backoffBase :: "int option"

record ('e, 'a) retry_run =
  outcome :: "'e option + 'a"
  delays :: "int list"
  invocations :: nat

definition delayMs :: "int \<Rightarrow> nat \<Rightarrow> int" where
  "delayMs base attempt = base * 2 ^ (attempt - 1)"

function retry_loop ::
  "(nat \<Rightarrow> 'e + 'a) \<Rightarrow> nat \<Rightarrow> int \<Rightarrow> nat \<Rightarrow> 'e option \<Rightarrow> int list \<Rightarrow> nat \<Rightarrow> ('e, 'a) retry_run" where
  "retry_loop fn maxA base attempt lastError slept calls =
     (if attempt \<le> maxA then
        (case fn attempt of
           Inr v \<Rightarrow> \<lparr>outcome = Inr v, delays = slept, invocations = Suc calls\<rparr>
         | Inl e \<Rightarrow>
             (if attempt < maxA
              then retry_loop fn maxA base (attempt + 1) (Some e)
                     (slept @ [delayMs base attempt]) (Suc calls)
              else retry_loop fn maxA base (attempt + 1) (Some e) slept (Suc calls)))
      else \<lparr>outcome = Inl lastError, delays = slept, invocations = calls\<rparr>)"
  by pat_completeness auto
termination
  by (relation "measure (\<lambda>(fn, maxA, base, attempt, lastError, slept, calls). Suc maxA - attempt)") auto

declare retry_loop.simps [simp del]

text \<open>The defaults of the destructured options.\<close>

definition effective_max :: "RetryOptions \<Rightarrow> nat" where
  "effective_max options = (case maxAttempts options of None \<Rightarrow> 3 | Some m \<Rightarrow> m)"

definition effective_base :: "RetryOptions \<Rightarrow> int" where
  "effective_base options = (case backoffBase options of None \<Rightarrow> 500 | Some b \<Rightarrow> b)"

definition retry :: "(nat \<Rightarrow> 'e + 'a) \<Rightarrow> RetryOptions \<Rightarrow> ('e, 'a) retry_run" where
  "retry fn options =
     retry_loop fn (effective_max options) (effective_base options) 1 None [] 0"

definition no_options :: RetryOptions where
  "no_options = \<lparr>maxAttempts = None, backoffBase = None\<rparr>"

section \<open>Indicator gateway (polymarket/taapi)\<close>

text \<open>
  The upstream API is a function of the request and of the attempt: \<open>net rq k\<close> is what
  the \<open>k\<close>-th \<^verbatim>\<open>axios.get\<close> for \<open>rq\<close> does, \<open>Inl\<close> a rejection (network error, timeout,
  a status outside 2xx) and \<open>Inr\<close> the body of the response (\<^verbatim>\<open>response.data\<close>).
\<close>

record taapi_request =
  req_indicator :: string
  req_symbol :: string
  req_interval :: string
  req_results :: "nat option"
  req_params :: "(string \<times> rat) list"

type_synonym network = "taapi_request \<Rightarrow> nat \<Rightarrow> js_error + json"

definition value_request :: "string \<Rightarrow> string \<Rightarrow> string \<Rightarrow> (string \<times> rat) list \<Rightarrow> taapi_request" where
  "value_request indicator symbol interval params =
     \<lparr>req_indicator = indicator, req_symbol = symbol, req_interval = interval,
      req_results = None, req_params = params\<rparr>"

definition series_request ::
  "string \<Rightarrow> string \<Rightarrow> string \<Rightarrow> nat \<Rightarrow> (string \<times> rat) list \<Rightarrow> taapi_request" where
  "series_request indicator symbol interval results params =
     \<lparr>req_indicator = indicator, req_symbol = symbol, req_interval = interval,
      req_results = Some results, req_params = params\<rparr>"

definition thrown :: "js_error option \<Rightarrow> js_error" where
  "thrown e = (case e of None \<Rightarrow> ThrownNull | Some x \<Rightarrow> x)"

text \<open>\<^verbatim>\<open>await retry(() => axios.get(...))\<close> with the default options.\<close>

definition await_retry :: "(nat \<Rightarrow> js_error + 'a) \<Rightarrow> js_error + 'a" where
  "await_retry fn =
     (case outcome (retry fn no_options) of
        Inl e \<Rightarrow> Inl (thrown e)
      | Inr v \<Rightarrow> Inr v)"

text \<open>The rounding both fetchers apply to a number: \<^verbatim>\<open>Math.round(v * 10000) / 10000\<close>.\<close>

definition round4 :: "rat \<Rightarrow> rat" where
  "round4 v = Math_round (v * 10000) / 10000"

text \<open>
  \<^verbatim>\<open>fetchValue\<close>: the body of the \<^verbatim>\<open>try\<close> block, then the function with its
  \<^verbatim>\<open>catch\<close>.  \<^verbatim>\<open>data.data[key]\<close> throws a TypeError when the body is \<^verbatim>\<open>null\<close>.
\<close>

definition fetchValue_try ::
  "network \<Rightarrow> string \<Rightarrow> string \<Rightarrow> string \<Rightarrow> (string \<times> rat) list \<Rightarrow> string \<Rightarrow> js_error + rat option" where
  "fetchValue_try net indicator symbol interval params key =
     (case await_retry (net (value_request indicator symbol interval params)) of
        Inl e \<Rightarrow> Inl e
      | Inr body \<Rightarrow>
          (if body = JNull then Inl TypeError
           else (case get_field body key of
                   Some (JNum val) \<Rightarrow> Inr (Some (round4 val))
                 | _ \<Rightarrow> Inr None)))"

definition fetchValue ::
  "network \<Rightarrow> string \<Rightarrow> string \<Rightarrow> string \<Rightarrow> (string \<times> rat) list \<Rightarrow> string \<Rightarrow> js_error + rat option" where
  "fetchValue net indicator symbol interval params key =
     (case fetchValue_try net indicator symbol interval params key of
        Inl e \<Rightarrow> Inr None
      | Inr v \<Rightarrow> Inr v)"

definition getHistoricalIndicator ::
  "network \<Rightarrow> string \<Rightarrow> string \<Rightarrow> string \<Rightarrow> nat \<Rightarrow> (string \<times> rat) list \<Rightarrow> js_error + json" where
  "getHistoricalIndicator net indicator symbol interval results params =
     await_retry (net (series_request indicator symbol interval results params))"

text \<open>
  \<^verbatim>\<open>fetchSeries\<close>.  \<^verbatim>\<open>valueKey in data\<close> throws a TypeError on a truthy primitive; on an
  object or an array it is read as the test for an own property (an inherited member is
  never an array with elements, so the result is the same).
\<close>

definition round_entry :: "json \<Rightarrow> json" where
  "round_entry v = (case v of JNum r \<Rightarrow> JNum (round4 r) | _ \<Rightarrow> v)"

definition fetchSeries_try ::
  "network \<Rightarrow> string \<Rightarrow> string \<Rightarrow> string \<Rightarrow> nat \<Rightarrow> (string \<times> rat) list \<Rightarrow> string \<Rightarrow> js_error + json list" where
  "fetchSeries_try net indicator symbol interval results params valueKey =
     (case getHistoricalIndicator net indicator symbol interval results params of
        Inl e \<Rightarrow> Inl e
      | Inr data \<Rightarrow>
          (if \<not> truthy data then Inr []
           else (case data of
                   JObj kvs \<Rightarrow>
                     (case get_field data valueKey of
                        Some (JArr xs) \<Rightarrow> Inr (map round_entry xs)
                      | _ \<Rightarrow> Inr [])
                 | JArr ys \<Rightarrow>
                     (case get_field data valueKey of
                        Some (JArr xs) \<Rightarrow> Inr (map round_entry xs)
                      | _ \<Rightarrow> Inr [])
                 | _ \<Rightarrow> Inl TypeError)))"

definition fetchSeries ::
  "network \<Rightarrow> string \<Rightarrow> string \<Rightarrow> string \<Rightarrow> nat \<Rightarrow> (string \<times> rat) list \<Rightarrow> string \<Rightarrow> js_error + json list" where
  "fetchSeries net indicator symbol interval results params valueKey =
     (case fetchSeries_try net indicator symbol interval results params valueKey of
        Inl e \<Rightarrow> Inr []
      | Inr xs \<Rightarrow> Inr xs)"

text \<open>\<^verbatim>\<open>getHistoricalData\<close>: the raw body, \<^verbatim>\<open>{}\<close> for \<^verbatim>\<open>null\<close> and on any error.\<close>

definition getHistoricalData ::
  "network \<Rightarrow> string \<Rightarrow> string \<Rightarrow> string \<Rightarrow> nat \<Rightarrow> (string \<times> rat) list \<Rightarrow> js_error + json" where
  "getHistoricalData net indicator symbol interval results params =
     (case await_retry (net (series_request indicator symbol interval results params)) of
        Inl e \<Rightarrow> Inr (JObj [])
      | Inr body \<Rightarrow> Inr (if body = JNull then JObj [] else body))"

text \<open>
  The object held in \<^verbatim>\<open>this.taapi\<close>: three methods, each of which may return or throw.
  \<open>TaapiClientService\<close> is the one the constructor installs.
\<close>

record taapi_client =
  cl_fetchValue ::
    "string \<Rightarrow> string \<Rightarrow> string \<Rightarrow> (string \<times> rat) list \<Rightarrow> string \<Rightarrow> js_error + rat option"
  cl_fetchSeries ::
    "string \<Rightarrow> string \<Rightarrow> string \<Rightarrow> nat \<Rightarrow> (string \<times> rat) list \<Rightarrow> string \<Rightarrow> js_error + json list"
  cl_getHistoricalData ::
    "string \<Rightarrow> string \<Rightarrow> string \<Rightarrow> nat \<Rightarrow> (string \<times> rat) list \<Rightarrow> js_error + json"

definition TaapiClientService :: "network \<Rightarrow> taapi_client" where
  "TaapiClientService net =
     \<lparr>cl_fetchValue = fetchValue net,
      cl_fetchSeries = fetchSeries net,
      cl_getHistoricalData = getHistoricalData net\<rparr>"

section \<open>Indicator catalog (polymarket/indicators.const)\<close>

record MultiValueKey =
  responseKey :: string
  outputId :: string

record IndicatorDefinition =
  ind_id :: string
  nameKey :: string
  taapiIndicator :: string
  params :: "(string \<times> rat) list"
  valueKey :: "string option"
  fetchSeries_flag :: bool
  multiValueKeys :: "MultiValueKey list option"

definition AVAILABLE_INDICATORS :: "IndicatorDefinition list" where
  "AVAILABLE_INDICATORS =
     [\<lparr>ind_id = ''ema_20'', nameKey = ''ai_indicator_ema_20'', taapiIndicator = ''ema'',
       params = [(''period'', 20)], valueKey = Some ''value'', fetchSeries_flag = True,
       multiValueKeys = None\<rparr>,
      \<lparr>ind_id = ''ema_50'', nameKey = ''ai_indicator_ema_50'', taapiIndicator = ''ema'',
       params = [(''period'', 50)], valueKey = Some ''value'', fetchSeries_flag = False,
       multiValueKeys = None\<rparr>,
      \<lparr>ind_id = ''macd'', nameKey = ''ai_indicator_macd'', taapiIndicator = ''macd'',
       params = [], valueKey = Some ''valueMACD'', fetchSeries_flag = True,
       multiValueKeys = None\<rparr>,
      \<lparr>ind_id = ''rsi_7'', nameKey = ''ai_indicator_rsi_7'', taapiIndicator = ''rsi'',
       params = [(''period'', 7)], valueKey = Some ''value'', fetchSeries_flag = True,
       multiValueKeys = None\<rparr>,
      \<lparr>ind_id = ''rsi_14'', nameKey = ''ai_indicator_rsi_14'', taapiIndicator = ''rsi'',
       params = [(''period'', 14)], valueKey = Some ''value'', fetchSeries_flag = True,
       multiValueKeys = None\<rparr>,
      \<lparr>ind_id = ''bbands'', nameKey = ''ai_indicator_bbands'', taapiIndicator = ''bbands'',
       params = [(''period'', 20)], valueKey = None, fetchSeries_flag = True,
       multiValueKeys = Some
         [\<lparr>responseKey = ''valueUpperBand'', outputId = ''bbands_upper''\<rparr>,
          \<lparr>responseKey = ''valueMiddleBand'', outputId = ''bbands_middle''\<rparr>,
          \<lparr>responseKey = ''valueLowerBand'', outputId = ''bbands_lower''\<rparr>]\<rparr>,
      \<lparr>ind_id = ''atr_3'', nameKey = ''ai_indicator_atr_3'', taapiIndicator = ''atr'',
       params = [(''period'', 3)], valueKey = Some ''value'', fetchSeries_flag = False,
       multiValueKeys = None\<rparr>,
      \<lparr>ind_id = ''atr_14'', nameKey = ''ai_indicator_atr_14'', taapiIndicator = ''atr'',
       params = [(''period'', 14)], valueKey = Some ''value'', fetchSeries_flag = False,
       multiValueKeys = None\<rparr>]"

definition DEFAULT_INTRADAY_INDICATOR_IDS :: "string list" where
  "DEFAULT_INTRADAY_INDICATOR_IDS = [''ema_20'', ''macd'', ''rsi_7'', ''rsi_14'']"

definition DEFAULT_LONGTERM_INDICATOR_IDS :: "string list" where
  "DEFAULT_LONGTERM_INDICATOR_IDS =
     [''ema_20'', ''ema_50'', ''atr_3'', ''atr_14'', ''macd'', ''rsi_14'']"

definition getIndicatorsByIds :: "string list \<Rightarrow> IndicatorDefinition list" where
  "getIndicatorsByIds ids =
     List.map_filter (\<lambda>i. List.find (\<lambda>ind. ind_id ind = i) AVAILABLE_INDICATORS) ids"

section \<open>Market data aggregator (polymarket/prediction)\<close>

text \<open>
  The two records of an indicator bundle are objects filled by assignment: association
  lists in insertion order, an assignment to a present key replacing its value in place.
  The field \<open>vals\<close> is the \<^verbatim>\<open>values\<close> of the source.
\<close>

record IntradayIndicators =
  vals :: "(string \<times> rat option) list"
  series :: "(string \<times> rat list) list"

record MarketSection =
  asset :: string
  current_price :: "rat option"
  timestamp :: string
  intraday :: IntradayIndicators
  long_term :: IntradayIndicators

record GetMarketDataOptions =
  opt_asset :: string
  intradayTimeframe :: "string option"
  longTermTimeframe :: "string option"
  seriesResults :: "nat option"
  logger :: bool
  intradayIndicatorIds :: "string list option"
  longTermIndicatorIds :: "string list option"

text \<open>The \<^verbatim>\<open>arr\<close> of the multi-value branch: numbers kept, anything else replaced by 0.\<close>

definition multi_arr :: "json option \<Rightarrow> rat list" where
  "multi_arr raw =
     (case raw of
        Some (JArr xs) \<Rightarrow> map (\<lambda>v. case v of JNum r \<Rightarrow> r | _ \<Rightarrow> 0) xs
      | Some (JNum r) \<Rightarrow> [r]
      | _ \<Rightarrow> [])"

text \<open>\<^verbatim>\<open>arr[arr.length - 1] ?? null\<close>.\<close>

definition last_or_null :: "json list \<Rightarrow> json option" where
  "last_or_null arr = (if arr = [] then Some JNull else Some (last arr))"

definition multi_keys :: "IndicatorDefinition \<Rightarrow> MultiValueKey list" where
  "multi_keys d = (case multiValueKeys d of None \<Rightarrow> [] | Some ks \<Rightarrow> ks)"

definition value_key :: "IndicatorDefinition \<Rightarrow> string" where
  "value_key d = (case valueKey d of None \<Rightarrow> [] | Some k \<Rightarrow> k)"

text \<open>The inner loop over \<^verbatim>\<open>def.multiValueKeys\<close>; \<^verbatim>\<open>data[responseKey]\<close> throws on \<^verbatim>\<open>null\<close>.\<close>

fun multi_outputs ::
  "builtins \<Rightarrow> json \<Rightarrow> MultiValueKey list \<Rightarrow> IntradayIndicators \<Rightarrow> js_error + IntradayIndicators" where
  "multi_outputs B data [] acc = Inr acc"
| "multi_outputs B data (mk # mks) acc =
     (if data = JNull then Inl TypeError
      else (case roundSeries B (map JNum (multi_arr (get_field data (responseKey mk)))) 2 of
              Inl e \<Rightarrow> Inl e
            | Inr rs \<Rightarrow>
                (case roundOrNull B
                        (last_or_null (map JNum (multi_arr (get_field data (responseKey mk))))) 2 of
                   Inl e \<Rightarrow> Inl e
                 | Inr v \<Rightarrow>
                     multi_outputs B data mks
                       \<lparr>vals = AList.update (outputId mk) v (vals acc),
                        series = AList.update (outputId mk) rs (series acc)\<rparr>)))"

text \<open>The body of the loop of \<^verbatim>\<open>fetchIndicatorsByDefs\<close> for one definition.\<close>

definition fetch_def ::
  "builtins \<Rightarrow> taapi_client \<Rightarrow> string \<Rightarrow> string \<Rightarrow> nat \<Rightarrow> IndicatorDefinition
     \<Rightarrow> IntradayIndicators \<Rightarrow> js_error + IntradayIndicators" where
  "fetch_def B cl symbol timeframe results d acc =
     (if multi_keys d \<noteq> [] then
        (case cl_getHistoricalData cl (taapiIndicator d) symbol timeframe results (params d) of
           Inl e \<Rightarrow> Inl e
         | Inr data \<Rightarrow> multi_outputs B data (multi_keys d) acc)
      else if fetchSeries_flag d \<and> value_key d \<noteq> [] then
        (case cl_fetchSeries cl (taapiIndicator d) symbol timeframe results (params d)
                (value_key d) of
           Inl e \<Rightarrow> Inl e
         | Inr arr \<Rightarrow>
             (case roundSeries B arr 2 of
                Inl e \<Rightarrow> Inl e
              | Inr rs \<Rightarrow>
                  (case roundOrNull B (last_or_null arr) 2 of
                     Inl e \<Rightarrow> Inl e
                   | Inr v \<Rightarrow>
                       Inr \<lparr>vals = AList.update (ind_id d) v (vals acc),
                            series = AList.update (ind_id d) rs (series acc)\<rparr>)))
      else if value_key d \<noteq> [] then
        (case cl_fetchValue cl (taapiIndicator d) symbol timeframe (params d) (value_key d) of
           Inl e \<Rightarrow> Inl e
         | Inr val \<Rightarrow>
             (case roundOrNull B (Some (case val of None \<Rightarrow> JNull | Some r \<Rightarrow> JNum r)) 2 of
                Inl e \<Rightarrow> Inl e
              | Inr v \<Rightarrow>
                  Inr \<lparr>vals = AList.update (ind_id d) v (vals acc), series = series acc\<rparr>))
      else Inr acc)"

fun defs_loop ::
  "builtins \<Rightarrow> taapi_client \<Rightarrow> string \<Rightarrow> string \<Rightarrow> nat \<Rightarrow> IndicatorDefinition list
     \<Rightarrow> IntradayIndicators \<Rightarrow> js_error + IntradayIndicators" where
  "defs_loop B cl symbol timeframe results [] acc = Inr acc"
| "defs_loop B cl symbol timeframe results (d # ds) acc =
     (case fetch_def B cl symbol timeframe results d acc of
        Inl e \<Rightarrow> Inl e
      | Inr acc' \<Rightarrow> defs_loop B cl symbol timeframe results ds acc')"

text \<open>
  \<^verbatim>\<open>fetchIndicatorsByDefs\<close>.  The one-second delay before each call changes no value
  and is left out.
\<close>

definition fetchIndicatorsByDefs ::
  "builtins \<Rightarrow> taapi_client \<Rightarrow> string \<Rightarrow> string \<Rightarrow> nat \<Rightarrow> IndicatorDefinition list
     \<Rightarrow> js_error + IntradayIndicators" where
  "fetchIndicatorsByDefs B cl asset_name timeframe results defs =
     defs_loop B cl (asset_name @ ''/USDT'') timeframe results defs \<lparr>vals = [], series = []\<rparr>"

text \<open>
  \<^verbatim>\<open>fetchAssetMarketData\<close>: the three gathers of \<^verbatim>\<open>Promise.all\<close>, which rejects as soon
  as one of them does.  \<open>now\<close> is \<^verbatim>\<open>new Date().toISOString()\<close>.  Of several rejections
  the model reports the first in the order of the array; the error only reaches the log.
\<close>

definition fetchAssetMarketData ::
  "builtins \<Rightarrow> taapi_client \<Rightarrow> string \<Rightarrow> string \<Rightarrow> string \<Rightarrow> string \<Rightarrow> nat
     \<Rightarrow> IndicatorDefinition list \<Rightarrow> IndicatorDefinition list \<Rightarrow> js_error + MarketSection" where
  "fetchAssetMarketData B cl now asset_name intradayTf longTermTf results intradayDefs longTermDefs =
     (case fetchIndicatorsByDefs B cl asset_name intradayTf results intradayDefs of
        Inl e \<Rightarrow> Inl e
      | Inr intradayData \<Rightarrow>
          (case fetchIndicatorsByDefs B cl asset_name longTermTf results longTermDefs of
             Inl e \<Rightarrow> Inl e
           | Inr longTermData \<Rightarrow>
               (case cl_fetchValue cl ''price'' (asset_name @ ''/USDT'') intradayTf [] ''value'' of
                  Inl e \<Rightarrow> Inl e
                | Inr currentPrice \<Rightarrow>
                    Inr \<lparr>asset = asset_name, current_price = currentPrice, timestamp = now,
                         intraday = intradayData, long_term = longTermData\<rparr>)))"

text \<open>
  \<^verbatim>\<open>getCurrentMarketData\<close>: the list it returns and what it hands to the logger (the
  asset and the error caught).
\<close>

definition ids_or_default :: "string list option \<Rightarrow> string list \<Rightarrow> string list" where
  "ids_or_default ids dflt = (case ids of Some (i # rest) \<Rightarrow> i # rest | _ \<Rightarrow> dflt)"

definition intradayDefs_of :: "GetMarketDataOptions \<Rightarrow> IndicatorDefinition list" where
  "intradayDefs_of options =
     getIndicatorsByIds (ids_or_default (intradayIndicatorIds options) DEFAULT_INTRADAY_INDICATOR_IDS)"

definition longTermDefs_of :: "GetMarketDataOptions \<Rightarrow> IndicatorDefinition list" where
  "longTermDefs_of options =
     getIndicatorsByIds (ids_or_default (longTermIndicatorIds options) DEFAULT_LONGTERM_INDICATOR_IDS)"

definition intradayTf_of :: "GetMarketDataOptions \<Rightarrow> string" where
  "intradayTf_of options = (case intradayTimeframe options of None \<Rightarrow> ''5m'' | Some t \<Rightarrow> t)"

definition longTermTf_of :: "GetMarketDataOptions \<Rightarrow> string" where
  "longTermTf_of options = (case longTermTimeframe options of None \<Rightarrow> ''4h'' | Some t \<Rightarrow> t)"

definition results_of :: "GetMarketDataOptions \<Rightarrow> nat" where
  "results_of options = (case seriesResults options of None \<Rightarrow> 10 | Some n \<Rightarrow> n)"

definition gather :: "builtins \<Rightarrow> taapi_client \<Rightarrow> string \<Rightarrow> GetMarketDataOptions \<Rightarrow> js_error + MarketSection" where
  "gather B cl now options =
     fetchAssetMarketData B cl now (opt_asset options)
       (intradayTf_of options) (longTermTf_of options) (results_of options)
       (intradayDefs_of options) (longTermDefs_of options)"

definition getCurrentMarketData ::
  "builtins \<Rightarrow> taapi_client \<Rightarrow> string \<Rightarrow> GetMarketDataOptions
     \<Rightarrow> MarketSection list \<times> (string \<times> js_error) list" where
  "getCurrentMarketData B cl now options =
     (case gather B cl now options of
        Inr section \<Rightarrow> ([section], [])
      | Inl e \<Rightarrow> ([], if logger options then [(opt_asset options, e)] else []))"



definition expected_value_ids :: "IndicatorDefinition \<Rightarrow> string list" where
  "expected_value_ids d =
     (if multi_keys d \<noteq> [] then map outputId (multi_keys d)
      else if value_key d \<noteq> [] then [ind_id d] else [])"

definition expected_series_ids :: "IndicatorDefinition \<Rightarrow> string list" where
  "expected_series_ids d =
     (if multi_keys d \<noteq> [] then map outputId (multi_keys d)
      else if fetchSeries_flag d \<and> value_key d \<noteq> [] then [ind_id d] else [])"

definition client_call_fails :: "taapi_client \<Rightarrow> string \<Rightarrow> string \<Rightarrow> nat \<Rightarrow> IndicatorDefinition \<Rightarrow> bool" where
  "client_call_fails cl symbol timeframe results d =
     (if multi_keys d \<noteq> [] then
        isl (cl_getHistoricalData cl (taapiIndicator d) symbol timeframe results (params d))
      else if fetchSeries_flag d \<and> value_key d \<noteq> [] then
        isl (cl_fetchSeries cl (taapiIndicator d) symbol timeframe results (params d) (value_key d))
      else if value_key d \<noteq> [] then
        isl (cl_fetchValue cl (taapiIndicator d) symbol timeframe (params d) (value_key d))
      else False)"

definition bundle_complete :: "IndicatorDefinition list \<Rightarrow> IntradayIndicators \<Rightarrow> bool" where
  "bundle_complete defs ind =
     (set (map fst (vals ind)) = set (concat (map expected_value_ids defs))
      \<and> set (map fst (series ind)) = set (concat (map expected_series_ids defs)))"

text \<open>Some call of the gather to the client throws.\<close>

definition some_call_fails :: "taapi_client \<Rightarrow> GetMarketDataOptions \<Rightarrow> bool" where
  "some_call_fails cl options =
     (list_ex (client_call_fails cl (opt_asset options @ ''/USDT'') (intradayTf_of options)
                 (results_of options)) (intradayDefs_of options)
      \<or> list_ex (client_call_fails cl (opt_asset options @ ''/USDT'') (longTermTf_of options)
                 (results_of options)) (longTermDefs_of options)
      \<or> isl (cl_fetchValue cl ''price'' (opt_asset options @ ''/USDT'') (intradayTf_of options)
                 [] ''value''))"

section \<open>Prediction orchestrator: the market slug\<close>

text \<open>Case mapping, on the ASCII letters.\<close>

definition to_lower_char :: "char \<Rightarrow> char" where
  "to_lower_char c =
     (case map_of (zip ''ABCDEFGHIJKLMNOPQRSTUVWXYZ'' ''abcdefghijklmnopqrstuvwxyz'') c of
        None \<Rightarrow> c
      | Some l \<Rightarrow> l)"

definition to_upper_char :: "char \<Rightarrow> char" where
  "to_upper_char c =
     (case map_of (zip ''abcdefghijklmnopqrstuvwxyz'' ''ABCDEFGHIJKLMNOPQRSTUVWXYZ'') c of
        None \<Rightarrow> c
      | Some u \<Rightarrow> u)"

definition toLowerCase :: "string \<Rightarrow> string" where
  "toLowerCase s = map to_lower_char s"

definition toUpperCase :: "string \<Rightarrow> string" where
  "toUpperCase s = map to_upper_char s"

text \<open>
  Lines 442 to 446 of \<^verbatim>\<open>predict\<close>: \<open>now\<close> is the clock in epoch seconds, an integer
  (\<^verbatim>\<open>Math.floor(Date.now() / 1000)\<close>); integers below \<open>10^21\<close> print in plain decimal.
\<close>

definition FIFTEEN_MINUTES :: int where
  "FIFTEEN_MINUTES = 15 * 60"

definition roundedTimestamp :: "int \<Rightarrow> int" where
  "roundedTimestamp now = (now div FIFTEEN_MINUTES) * FIFTEEN_MINUTES"

definition window_slug :: "string \<Rightarrow> int \<Rightarrow> string" where
  "window_slug ticker now =
     toLowerCase ticker @ ''-updown-15m-'' @ show_int (roundedTimestamp now)"

definition predict_slug :: "string \<Rightarrow> int \<Rightarrow> string" where
  "predict_slug symbol now_ms = window_slug (toUpperCase symbol) (now_ms div 1000)"

section \<open>Market snapshot gateway (polymarket/polymarketAPI)\<close>

record MarketOutcome =
  label :: json
  price :: rat

record BtcMarketData =
  market_id :: string
  question :: string
  slug :: string
  outcomes :: "MarketOutcome list"
  clobTokenIds :: "string list"

record PolymarketMarket =
  pm_id :: "string option"
  pm_question :: "string option"
  pm_outcomes :: "string option"
  pm_outcomePrices :: "string option"
  pm_clobTokenIds :: "string list option"

record PolymarketEvent =
  ev_id :: string
  ev_slug :: "string option"
  ev_title :: "string option"
  ev_markets :: "PolymarketMarket list option"

text \<open>\<^verbatim>\<open>parseFloat(prices[i] ?? "0") || 0\<close>.\<close>

definition parse_price :: "builtins \<Rightarrow> json \<Rightarrow> js_error + rat" where
  "parse_price B p =
     (case ToString B (if p = JNull then JStr ''0'' else p) of
        Inl e \<Rightarrow> Inl e
      | Inr str \<Rightarrow> Inr (num_or (parseFloat_str B str) 0))"

text \<open>The \<^verbatim>\<open>labels.map\<close> of \<^verbatim>\<open>parseOutcomes\<close>, on two arrays of the same length.\<close>

fun pair_outcomes :: "builtins \<Rightarrow> json list \<Rightarrow> json list \<Rightarrow> js_error + MarketOutcome list" where
  "pair_outcomes B (l # ls) (p # ps) =
     (case parse_price B p of
        Inl e \<Rightarrow> Inl e
      | Inr q \<Rightarrow>
          (case pair_outcomes B ls ps of
             Inl e \<Rightarrow> Inl e
           | Inr rest \<Rightarrow> Inr (\<lparr>label = l, price = q\<rparr> # rest)))"
| "pair_outcomes B ls ps = Inr []"

definition parseOutcomes ::
  "builtins \<Rightarrow> string option \<Rightarrow> string option \<Rightarrow> js_error + MarketOutcome list" where
  "parseOutcomes B outcomesJson pricesJson =
     (case outcomesJson of
        None \<Rightarrow> Inr []
      | Some otext \<Rightarrow>
          (case pricesJson of
             None \<Rightarrow> Inr []
           | Some ptext \<Rightarrow>
               (if otext = [] \<or> ptext = [] then Inr []
                else (case JSON_parse B otext of
                        None \<Rightarrow> Inr []
                      | Some labels \<Rightarrow>
                          (case JSON_parse B ptext of
                             None \<Rightarrow> Inr []
                           | Some prices \<Rightarrow>
                               (case labels of
                                  JArr ls \<Rightarrow>
                                    (case prices of
                                       JArr ps \<Rightarrow>
                                         (if length ls \<noteq> length ps then Inr []
                                          else pair_outcomes B ls ps)
                                     | _ \<Rightarrow> Inr [])
                                | _ \<Rightarrow> Inr []))))))"

text \<open>The entry pushed for a market whose outcomes are \<open>os\<close>.\<close>

definition market_entry ::
  "PolymarketEvent \<Rightarrow> string \<Rightarrow> PolymarketMarket \<Rightarrow> MarketOutcome list \<Rightarrow> BtcMarketData" where
  "market_entry event slug_arg market os =
     \<lparr>market_id = (case pm_id market of None \<Rightarrow> ev_id event | Some i \<Rightarrow> i),
      question = (case pm_question market of
                    Some q \<Rightarrow> q
                  | None \<Rightarrow> (case ev_title event of None \<Rightarrow> [] | Some t \<Rightarrow> t)),
      slug = (case ev_slug event of None \<Rightarrow> slug_arg | Some sl \<Rightarrow> sl),
      outcomes = os,
      clobTokenIds = (case pm_clobTokenIds market of None \<Rightarrow> [] | Some ids \<Rightarrow> ids)\<rparr>"

text \<open>The inner loop over the markets of an event.\<close>

fun markets_loop ::
  "builtins \<Rightarrow> PolymarketEvent \<Rightarrow> string \<Rightarrow> PolymarketMarket list \<Rightarrow> js_error + BtcMarketData list" where
  "markets_loop B event slug_arg [] = Inr []"
| "markets_loop B event slug_arg (m # ms) =
     (case parseOutcomes B (pm_outcomes m) (pm_outcomePrices m) of
        Inl e \<Rightarrow> Inl e
      | Inr os \<Rightarrow>
          (case markets_loop B event slug_arg ms of
             Inl e \<Rightarrow> Inl e
           | Inr rest \<Rightarrow> Inr (if os = [] then rest else market_entry event slug_arg m os # rest)))"

text \<open>\<^verbatim>\<open>title.includes(sub)\<close>.\<close>

fun str_includes :: "string \<Rightarrow> string \<Rightarrow> bool" where
  "str_includes [] sub = (sub = [])"
| "str_includes (c # cs) sub = (prefix sub (c # cs) \<or> str_includes cs sub)"

record FetchOptions =
  opt_limit :: "nat option"
  opt_searchTitle :: "string option"
  opt_slug :: "string option"

definition slug_of :: "FetchOptions \<Rightarrow> string" where
  "slug_of options = (case opt_slug options of None \<Rightarrow> ''btc-updown-15m-1770690600'' | Some sl \<Rightarrow> sl)"

definition event_skipped :: "FetchOptions \<Rightarrow> PolymarketEvent \<Rightarrow> bool" where
  "event_skipped options event =
     (let title = toLowerCase (case ev_title event of None \<Rightarrow> [] | Some t \<Rightarrow> t);
          searchTitle = (case opt_searchTitle options of None \<Rightarrow> ''BTC'' | Some t \<Rightarrow> t)
      in (slug_of options = [] \<and> \<not> str_includes title ''btc'' \<and> \<not> str_includes title ''bitcoin'')
         \<or> (slug_of options = []
             \<and> (case opt_searchTitle options of None \<Rightarrow> False | Some t \<Rightarrow> t \<noteq> [])
             \<and> \<not> str_includes title (toLowerCase searchTitle)))"

fun events_loop ::
  "builtins \<Rightarrow> FetchOptions \<Rightarrow> PolymarketEvent list \<Rightarrow> js_error + BtcMarketData list" where
  "events_loop B options [] = Inr []"
| "events_loop B options (event # events) =
     (if event_skipped options event then events_loop B options events
      else (case markets_loop B event (slug_of options)
                   (case ev_markets event of None \<Rightarrow> [] | Some ms \<Rightarrow> ms) of
              Inl e \<Rightarrow> Inl e
            | Inr found \<Rightarrow>
                (case events_loop B options events of
                   Inl e \<Rightarrow> Inl e
                 | Inr rest \<Rightarrow> Inr (found @ rest))))"

text \<open>
  The market registry: what the GET of an event by its slug and the GET of the list of
  active events answer, \<open>Inl\<close> when the request is rejected.
\<close>

record gamma_api =
  event_by_slug :: "string \<Rightarrow> js_error + PolymarketEvent option"
  active_events :: "nat \<Rightarrow> js_error + PolymarketEvent list"

definition fetchBtcUpDownMarkets ::
  "builtins \<Rightarrow> gamma_api \<Rightarrow> FetchOptions \<Rightarrow> js_error + BtcMarketData list" where
  "fetchBtcUpDownMarkets B api options =
     (case (if slug_of options \<noteq> [] then
              (case event_by_slug api (slug_of options) of
                 Inl e \<Rightarrow> Inl e
               | Inr None \<Rightarrow> Inr []
               | Inr (Some event) \<Rightarrow> Inr [event])
            else active_events api (case opt_limit options of None \<Rightarrow> 50 | Some n \<Rightarrow> n)) of
        Inl e \<Rightarrow> Inl e
      | Inr events \<Rightarrow> events_loop B options events)"

text \<open>
  A market whose two JSON-encoded fields are present but do not parse, are not both
  arrays, or are arrays of different lengths.
\<close>

definition malformed_market :: "builtins \<Rightarrow> PolymarketMarket \<Rightarrow> bool" where
  "malformed_market B m =
     (case pm_outcomes m of
        None \<Rightarrow> False
      | Some otext \<Rightarrow>
          (case pm_outcomePrices m of
             None \<Rightarrow> False
           | Some ptext \<Rightarrow>
               (case JSON_parse B otext of
                  None \<Rightarrow> True
                | Some labels \<Rightarrow>
                    (case JSON_parse B ptext of
                       None \<Rightarrow> True
                     | Some prices \<Rightarrow>
                         (case labels of
                            JArr ls \<Rightarrow>
                              (case prices of
                                 JArr ps \<Rightarrow> length ls \<noteq> length ps
                               | _ \<Rightarrow> True)
                          | _ \<Rightarrow> True)))))"

section \<open>Decision engine (polymarket/prediction)\<close>

text \<open>
  The declared type of \<^verbatim>\<open>direction\<close> is the union of three strings and that of
  \<^verbatim>\<open>reasoning\<close> is string, but both are assigned by unchecked casts: at run time they are
  whatever value the reply holds.
\<close>

record UpDownDecision =
  market_slug :: string
  direction :: json
  size_usd :: rat
  max_loss_usd :: rat
  edge_prob :: rat

record UpDownAgentOutput =
  reasoning :: json
  decision :: UpDownDecision

record ChatMessage =
  role :: string
  content :: "json option"
  parsed :: "json option"

record Choice =
  message :: "ChatMessage option"

record OpenRouterResponse =
  choices :: "Choice list option"

record UpDownMarketSnapshot =
  snap_market_slug :: string
  snap_question :: string
  snap_outcomes :: "json list"
  snap_outcomePrices :: "rat list"
  snap_clobTokenIds :: "string list"

definition missing_decision :: js_error where
  "missing_decision = Error ''Missing or invalid 'decision' field in LLM output''"

definition invalid_response :: js_error where
  "invalid_response = Error ''Invalid LLM response: choice or message is missing or malformed.''"

text \<open>The object that \<^verbatim>\<open>parseUpDownResponse\<close> reads the fields from.\<close>

definition parsed_reply :: "builtins \<Rightarrow> ChatMessage \<Rightarrow> js_error + json" where
  "parsed_reply B msg =
     (if (case parsed msg of None \<Rightarrow> False | Some p \<Rightarrow> truthy p \<and> typeof_object p)
      then (case parsed msg of None \<Rightarrow> Inl TypeError | Some p \<Rightarrow> Inr p)
      else (case ToString B (or_else (content msg) (JStr ''{}'')) of
              Inl e \<Rightarrow> Inl e
            | Inr text \<Rightarrow>
                (case JSON_parse B text of
                   None \<Rightarrow> Inl SyntaxError
                 | Some p \<Rightarrow> Inr p)))"

text \<open>The object literal of the decision, its fields evaluated in order.\<close>

definition coerce_decision :: "builtins \<Rightarrow> json \<Rightarrow> string \<Rightarrow> js_error + UpDownDecision" where
  "coerce_decision B decisionRaw defaultSlug =
     (case ToString B (or_else (get_field decisionRaw ''market_slug'') (JStr defaultSlug)) of
        Inl e \<Rightarrow> Inl e
      | Inr slug_text \<Rightarrow>
          (case ToNumber_opt B (get_field decisionRaw ''size_usd'') of
             Inl e \<Rightarrow> Inl e
           | Inr n_size \<Rightarrow>
               (case ToNumber_opt B (get_field decisionRaw ''max_loss_usd'') of
                  Inl e \<Rightarrow> Inl e
                | Inr n_loss \<Rightarrow>
                    (case ToNumber_opt B (get_field decisionRaw ''edge_prob'') of
                       Inl e \<Rightarrow> Inl e
                     | Inr n_edge \<Rightarrow>
                         Inr \<lparr>market_slug = slug_text,
                              direction = or_else (get_field decisionRaw ''direction'')
                                            (JStr ''NO_BET''),
                              size_usd = num_or n_size 0,
                              max_loss_usd = num_or n_loss 0,
                              edge_prob = num_or n_edge (1 / 2)\<rparr>))))"

definition parseUpDownResponse ::
  "builtins \<Rightarrow> ChatMessage \<Rightarrow> string \<Rightarrow> js_error + UpDownAgentOutput" where
  "parseUpDownResponse B msg defaultSlug =
     (case parsed_reply B msg of
        Inl e \<Rightarrow> Inl e
      | Inr p \<Rightarrow>
          (if p = JNull then Inl TypeError
           else (case get_field p ''decision'' of
                   None \<Rightarrow> Inl missing_decision
                 | Some decisionRaw \<Rightarrow>
                     (if \<not> truthy decisionRaw \<or> \<not> typeof_object decisionRaw
                      then Inl missing_decision
                      else (case coerce_decision B decisionRaw defaultSlug of
                              Inl e \<Rightarrow> Inl e
                            | Inr d \<Rightarrow>
                                Inr \<lparr>reasoning = or_else (get_field p ''reasoning'') (JStr []),
                                     decision = d\<rparr>)))))"

text \<open>
  The LLM endpoint is the sequence of what its POSTs do: \<open>llm k\<close> is a rejection or the
  status and the body of the \<open>k\<close>-th response.  A run of \<^verbatim>\<open>decideUpDown\<close> is its result
  and the message lists it has posted, one per call.
\<close>

type_synonym llm_endpoint = "nat \<Rightarrow> js_error + nat \<times> OpenRouterResponse"

definition callLLM :: "llm_endpoint \<Rightarrow> nat \<Rightarrow> js_error + OpenRouterResponse" where
  "callLLM llm k =
     (case llm k of
        Inl e \<Rightarrow> Inl e
      | Inr (status, body) \<Rightarrow> if status \<noteq> 200 then Inl (Error ''LLM API error'') else Inr body)"

record decide_run =
  run_result :: "js_error + UpDownAgentOutput"
  run_requests :: "ChatMessage list list"

definition decideUpDown ::
  "builtins \<Rightarrow> (UpDownMarketSnapshot \<Rightarrow> string \<Rightarrow> string) \<Rightarrow> llm_endpoint \<Rightarrow> string
     \<Rightarrow> UpDownMarketSnapshot \<Rightarrow> string \<Rightarrow> decide_run" where
  "decideUpDown B buildPrompt llm assetSymbol market ctxt =
     \<lparr>run_result =
        (case callLLM llm 1 of
           Inl e \<Rightarrow> Inl e
         | Inr respJson \<Rightarrow>
             (case choices respJson of
                None \<Rightarrow> Inl invalid_response
              | Some [] \<Rightarrow> Inl invalid_response
              | Some (choice # others) \<Rightarrow>
                  (case message choice of
                     None \<Rightarrow> Inl invalid_response
                   | Some msg \<Rightarrow>
                       (case content msg of
                          Some (JStr text) \<Rightarrow> parseUpDownResponse B msg (snap_market_slug market)
                        | _ \<Rightarrow> Inl invalid_response)))),
      run_requests =
        [[\<lparr>role = ''system'', content = Some (JStr (buildPrompt market assetSymbol)), parsed = None\<rparr>,
          \<lparr>role = ''user'', content = Some (JStr ctxt), parsed = None\<rparr>]]\<rparr>"

text \<open>The values that are neither objects nor arrays.\<close>

definition is_primitive :: "json \<Rightarrow> bool" where
  "is_primitive v = (case v of JArr xs \<Rightarrow> False | JObj kvs \<Rightarrow> False | _ \<Rightarrow> True)"

section \<open>A concrete runtime for the examples\<close>

text \<open>
  The examples are evaluated with one instance of the runtime functions, for ASCII text:
  a JSON parser, the numeric value of a string (decimal literals and the literals in
  base 16, 8 and 2; \<^verbatim>\<open>Infinity\<close> is not a number of the model and reads as \<^verbatim>\<open>NaN\<close>),
  \<^verbatim>\<open>parseFloat\<close> (the longest decimal literal at the head of the string) and the decimal
  string of a number.  No theorem about the program depends on this instance except
  through the examples.
\<close>

definition is_digit :: "char \<Rightarrow> bool" where
  "is_digit c = (c \<in> set ''0123456789'')"

definition is_json_ws :: "char \<Rightarrow> bool" where
  "is_json_ws c = (c \<in> set [CHR '' '', CHR 0x09, CHR 0x0A, CHR 0x0D])"

definition skip_ws :: "string \<Rightarrow> string" where
  "skip_ws s = dropWhile is_json_ws s"

text \<open>An optional exponent part: the exponent and the rest, or nothing when it is not complete.\<close>

definition exponent_part :: "string \<Rightarrow> (int \<times> string) option" where
  "exponent_part s =
     (case s of
        [] \<Rightarrow> None
      | e # r \<Rightarrow>
          (if e = CHR ''e'' \<or> e = CHR ''E'' then
             (let neg = (case r of [] \<Rightarrow> False | g # _ \<Rightarrow> g = CHR ''-'');
                  r' = (case r of [] \<Rightarrow> [] | g # t \<Rightarrow> if g = CHR ''-'' \<or> g = CHR ''+'' then t else r);
                  ds = takeWhile is_digit r'
              in if ds = [] then None
                 else Some (if neg then - int (read_nat ds) else int (read_nat ds),
                            dropWhile is_digit r'))
           else None))"

definition scale10 :: "rat \<Rightarrow> int \<Rightarrow> rat" where
  "scale10 m e = (if e < 0 then m / 10 ^ nat (- e) else m * 10 ^ nat e)"

text \<open>A JSON number at the head of the text: its value and the rest.\<close>

definition json_number :: "string \<Rightarrow> (rat \<times> string) option" where
  "json_number s =
     (let neg = (case s of [] \<Rightarrow> False | g # _ \<Rightarrow> g = CHR ''-'');
          s1 = (if neg then tl s else s);
          ip = takeWhile is_digit s1;
          s2 = dropWhile is_digit s1
      in if ip = [] \<or> (length ip > 1 \<and> hd ip = CHR ''0'') then None
         else
           (let has_frac = (case s2 of [] \<Rightarrow> False | d # _ \<Rightarrow> d = CHR ''.'');
                fp = (if has_frac then takeWhile is_digit (tl s2) else []);
                s3 = (if has_frac then dropWhile is_digit (tl s2) else s2)
            in if has_frac \<and> fp = [] then None
               else
                 (let m = of_nat (read_nat (ip @ fp)) / 10 ^ length fp;
                      sm = (if neg then - m else m)
                  in (case exponent_part s3 of
                        None \<Rightarrow>
                          (case s3 of
                             [] \<Rightarrow> Some (sm, s3)
                           | e # _ \<Rightarrow> if e = CHR ''e'' \<or> e = CHR ''E'' then None else Some (sm, s3))
                      | Some (ex, s4) \<Rightarrow> Some (scale10 sm ex, s4)))))"

text \<open>The characters of a JSON string after its opening quote, and the rest after the closing one.\<close>

definition simple_escape :: "char \<Rightarrow> char option" where
  "simple_escape c =
     map_of [(CHR ''\"'', CHR ''\"''), (CHR 0x5C, CHR 0x5C), (CHR ''/'', CHR ''/''),
             (CHR ''b'', CHR 0x08), (CHR ''f'', CHR 0x0C), (CHR ''n'', CHR 0x0A),
             (CHR ''r'', CHR 0x0D), (CHR ''t'', CHR 0x09)] c"

fun json_string :: "string \<Rightarrow> (string \<times> string) option" where
  "json_string [] = None"
| "json_string [c] = (if c = CHR ''\"'' then Some ([], []) else None)"
| "json_string (c # d # cs) =
     (if c = CHR ''\"'' then Some ([], d # cs)
      else if c = CHR 0x5C then
        (case simple_escape d of
           None \<Rightarrow> None
         | Some x \<Rightarrow> (case json_string cs of None \<Rightarrow> None | Some (str, r) \<Rightarrow> Some (x # str, r)))
      else if (of_char c :: nat) < 32 then None
      else (case json_string (d # cs) of None \<Rightarrow> None | Some (str, r) \<Rightarrow> Some (c # str, r)))"

text \<open>
  Values, the elements of an array after its opening bracket and the members of an
  object after its opening brace.  The first argument bounds the depth of the calls; the
  length of the text is enough.  A later binding of a key replaces an earlier one.
\<close>

fun json_value :: "nat \<Rightarrow> string \<Rightarrow> (json \<times> string) option"
  and json_elements :: "nat \<Rightarrow> string \<Rightarrow> (json list \<times> string) option"
  and json_members :: "nat \<Rightarrow> string \<Rightarrow> ((string \<times> json) list \<times> string) option" where
  "json_value 0 s = None"
| "json_value (Suc n) s =
     (case skip_ws s of
        [] \<Rightarrow> None
      | c # cs \<Rightarrow>
          (if c = CHR ''{'' then
             (case skip_ws cs of
                [] \<Rightarrow> None
              | d # ds \<Rightarrow>
                  (if d = CHR ''}'' then Some (JObj [], ds)
                   else (case json_members n (d # ds) of
                           None \<Rightarrow> None
                         | Some (kvs, r) \<Rightarrow> Some (JObj kvs, r))))
           else if c = CHR ''['' then
             (case skip_ws cs of
                [] \<Rightarrow> None
              | d # ds \<Rightarrow>
                  (if d = CHR '']'' then Some (JArr [], ds)
                   else (case json_elements n (d # ds) of
                           None \<Rightarrow> None
                         | Some (xs, r) \<Rightarrow> Some (JArr xs, r))))
           else if c = CHR ''\"'' then
             (case json_string cs of None \<Rightarrow> None | Some (str, r) \<Rightarrow> Some (JStr str, r))
           else if take 4 (c # cs) = ''true'' then Some (JBool True, drop 4 (c # cs))
           else if take 5 (c # cs) = ''false'' then Some (JBool False, drop 5 (c # cs))
           else if take 4 (c # cs) = ''null'' then Some (JNull, drop 4 (c # cs))
           else (case json_number (c # cs) of
                   None \<Rightarrow> None
                 | Some (q, r) \<Rightarrow> Some (JNum q, r))))"
| "json_elements 0 s = None"
| "json_elements (Suc n) s =
     (case json_value n s of
        None \<Rightarrow> None
      | Some (v, r) \<Rightarrow>
          (case skip_ws r of
             [] \<Rightarrow> None
           | c # cs \<Rightarrow>
               (if c = CHR '']'' then Some ([v], cs)
                else if c = CHR '','' then
                  (case json_elements n cs of
                     None \<Rightarrow> None
                   | Some (vs, r') \<Rightarrow> Some (v # vs, r'))
                else None)))"
| "json_members 0 s = None"
| "json_members (Suc n) s =
     (case skip_ws s of
        [] \<Rightarrow> None
      | q # qs \<Rightarrow>
          (if q \<noteq> CHR ''\"'' then None
           else (case json_string qs of
                   None \<Rightarrow> None
                 | Some (k, r) \<Rightarrow>
                     (case skip_ws r of
                        [] \<Rightarrow> None
                      | c # cs \<Rightarrow>
                          (if c \<noteq> CHR '':'' then None
                           else (case json_value n cs of
                                   None \<Rightarrow> None
                                 | Some (v, r') \<Rightarrow>
                                     (case skip_ws r' of
                                        [] \<Rightarrow> None
                                      | e # es \<Rightarrow>
                                          (if e = CHR ''}'' then Some ([(k, v)], es)
                                           else if e = CHR '','' then
                                             (case json_members n es of
                                                None \<Rightarrow> None
                                              | Some (kvs, r'') \<Rightarrow>
                                                  Some ((if has_own kvs k then kvs
                                                         else (k, v) # kvs), r''))
                                           else None))))))))"

definition json_parse :: "string \<Rightarrow> json option" where
  "json_parse s =
     (case json_value (Suc (length s)) s of
        None \<Rightarrow> None
      | Some (v, r) \<Rightarrow> if skip_ws r = [] then Some v else None)"

text \<open>White space of the language, and the text without it at both ends.\<close>

definition is_js_ws :: "char \<Rightarrow> bool" where
  "is_js_ws c = (c \<in> set [CHR '' '', CHR 0x09, CHR 0x0A, CHR 0x0B, CHR 0x0C, CHR 0x0D])"

definition trim :: "string \<Rightarrow> string" where
  "trim s = rev (dropWhile is_js_ws (rev (dropWhile is_js_ws s)))"

text \<open>The longest unsigned decimal literal at the head of the text: its value and the rest.\<close>

definition decimal_prefix :: "string \<Rightarrow> (rat \<times> string) option" where
  "decimal_prefix s =
     (let ip = takeWhile is_digit s;
          s2 = dropWhile is_digit s;
          has_dot = (case s2 of [] \<Rightarrow> False | d # _ \<Rightarrow> d = CHR ''.'');
          fp = (if has_dot then takeWhile is_digit (tl s2) else []);
          s3 = (if has_dot then dropWhile is_digit (tl s2) else s2);
          m = of_nat (read_nat (ip @ fp)) / 10 ^ length fp
      in if ip = [] \<and> fp = [] then None
         else (case exponent_part s3 of
                 None \<Rightarrow> Some (m, s3)
               | Some (ex, s4) \<Rightarrow> Some (scale10 m ex, s4)))"

definition signed_decimal_prefix :: "string \<Rightarrow> (rat \<times> string) option" where
  "signed_decimal_prefix s =
     (case s of
        [] \<Rightarrow> None
      | c # r \<Rightarrow>
          (if c = CHR ''-'' then map_option (\<lambda>(m, r'). (- m, r')) (decimal_prefix r)
           else if c = CHR ''+'' then decimal_prefix r
           else decimal_prefix s))"

text \<open>Literals in base 16, 8 and 2.\<close>

definition radix_digit :: "char \<Rightarrow> nat option" where
  "radix_digit c =
     map_of (zip ''0123456789abcdefABCDEF''
               [0, 1, 2, 3, 4, 5, 6, 7, 8, 9, 10, 11, 12, 13, 14, 15, 10, 11, 12, 13, 14, 15]) c"

definition read_radix :: "nat \<Rightarrow> string \<Rightarrow> nat option" where
  "read_radix b ds =
     (if ds \<noteq> [] \<and> list_all (\<lambda>c. case radix_digit c of None \<Rightarrow> False | Some d \<Rightarrow> d < b) ds
      then Some (foldl (\<lambda>a c. b * a + (case radix_digit c of None \<Rightarrow> 0 | Some d \<Rightarrow> d)) 0 ds)
      else None)"

definition radix_literal :: "string \<Rightarrow> nat option" where
  "radix_literal s =
     (case s of
        z # x # ds \<Rightarrow>
          (if z \<noteq> CHR ''0'' then None
           else if x = CHR ''x'' \<or> x = CHR ''X'' then read_radix 16 ds
           else if x = CHR ''o'' \<or> x = CHR ''O'' then read_radix 8 ds
           else if x = CHR ''b'' \<or> x = CHR ''B'' then read_radix 2 ds
           else None)
      | _ \<Rightarrow> None)"

definition StringToNumber_ascii :: "string \<Rightarrow> jsnum" where
  "StringToNumber_ascii s =
     (let t = trim s
      in if t = [] then Num 0
         else (case radix_literal t of
                 Some n \<Rightarrow> Num (of_nat n)
               | None \<Rightarrow>
                   (case signed_decimal_prefix t of
                      Some (m, []) \<Rightarrow> Num m
                    | _ \<Rightarrow> NaN)))"

definition parseFloat_ascii :: "string \<Rightarrow> jsnum" where
  "parseFloat_ascii s =
     (case signed_decimal_prefix (dropWhile is_js_ws s) of
        None \<Rightarrow> NaN
      | Some (m, r) \<Rightarrow> Num m)"

fun frac_digits :: "nat \<Rightarrow> rat \<Rightarrow> string" where
  "frac_digits 0 f = []"
| "frac_digits (Suc n) f =
     (if f = 0 then []
      else digit_char (nat \<lfloor>f * 10\<rfloor>) # frac_digits n (f * 10 - of_int \<lfloor>f * 10\<rfloor>))"

definition NumberToString_ascii :: "rat \<Rightarrow> string" where
  "NumberToString_ascii r =
     (if r = of_int \<lfloor>r\<rfloor> then show_int \<lfloor>r\<rfloor>
      else (if r < 0 then ''-'' else []) @ show_nat (nat \<lfloor>\<bar>r\<bar>\<rfloor>) @ ''.''
           @ frac_digits 20 (\<bar>r\<bar> - of_int \<lfloor>\<bar>r\<bar>\<rfloor>))"

definition js_ascii :: builtins where
  "js_ascii =
     \<lparr>StringToNumber = StringToNumber_ascii, NumberToString = NumberToString_ascii,
      JSON_parse = json_parse, parseFloat_str = parseFloat_ascii\<rparr>"

section \<open>Example inputs\<close>

definition demo_net :: network where
  "demo_net rq k =
     (if req_indicator rq = ''ema'' then Inr (JObj [(''value'', JNum (123456789 / 10000000))])
      else if req_indicator rq = ''rsi'' then
        Inr (JObj [(''value'', JArr [JNum (5012345 / 100000), JNull, JStr ''n/a'', JNum (49995 / 1000)])])
      else if req_indicator rq = ''bbands'' then
        Inr (JObj [(''valueUpperBand'', JArr [JNum (1005 / 1000), JStr ''x'']),
                   (''valueMiddleBand'', JNum 2)])
      else Inr (JObj [(''value'', JNum (67000123456 / 1000000))]))"

definition demo_options :: GetMarketDataOptions where
  "demo_options = \<lparr>opt_asset = ''BTC'', intradayTimeframe = None, longTermTimeframe = None,
     seriesResults = None, logger = True, intradayIndicatorIds = Some [''ema_50'', ''rsi_7''],
     longTermIndicatorIds = Some [''bbands'']\<rparr>"

text \<open>A client whose series call throws, and an upstream that sends an object for a number.\<close>

definition failing_client :: taapi_client where
  "failing_client =
     \<lparr>cl_fetchValue = fetchValue demo_net,
      cl_fetchSeries = (\<lambda>indicator symbol interval results ps key. Inl (Error ''rate limited'')),
      cl_getHistoricalData = getHistoricalData demo_net\<rparr>"

definition hostile_net :: network where
  "hostile_net rq k =
     (if req_indicator rq = ''rsi''
      then Inr (JObj [(''value'', JArr [JObj [(''toString'', JNum 1)]])])
      else demo_net rq k)"

definition demo_section :: MarketSection where
  "demo_section =
     \<lparr>asset = ''BTC'', current_price = Some (134000247 / 2000),
      timestamp = ''2026-02-10T02:30:05.000Z'',
      intraday =
        \<lparr>vals = [(''ema_50'', Some (247 / 20)), (''rsi_7'', Some 50)],
         series = [(''rsi_7'', [1253 / 25, 50])]\<rparr>,
      long_term =
        \<lparr>vals = [(''bbands_upper'', Some 0), (''bbands_middle'', Some 2),
                 (''bbands_lower'', None)],
         series = [(''bbands_upper'', [101 / 100, 0]), (''bbands_middle'', [2]),
                   (''bbands_lower'', [])]\<rparr>\<rparr>"

text \<open>An event of the registry with a broken market and a sound one.\<close>

definition up_down_event :: PolymarketEvent where
  "up_down_event =
     \<lparr>ev_id = ''ev-1'', ev_slug = Some ''btc-updown-15m-1770690600'',
      ev_title = Some ''Bitcoin Up or Down'',
      ev_markets = Some
        [\<lparr>pm_id = Some ''m-bad'', pm_question = Some ''Broken market'',
          pm_outcomes = Some ''[\"Up\", \"Down\"]'', pm_outcomePrices = Some ''[0.5'',
          pm_clobTokenIds = None\<rparr>,
         \<lparr>pm_id = Some ''m-ok'', pm_question = Some ''BTC up or down?'',
          pm_outcomes = Some ''[\"Up\", \"Down\"]'',
          pm_outcomePrices = Some ''[\"0.52\", \"0.48\"]'',
          pm_clobTokenIds = Some [''111'', ''222'']\<rparr>]\<rparr>"

definition demo_gamma :: gamma_api where
  "demo_gamma =
     \<lparr>event_by_slug = (\<lambda>sl. if sl = ''btc-updown-15m-1770690600'' then Inr (Some up_down_event)
                              else Inr None),
      active_events = (\<lambda>n. Inr [up_down_event])\<rparr>"

definition slug_options :: FetchOptions where
  "slug_options = \<lparr>opt_limit = None, opt_searchTitle = None,
                    opt_slug = Some ''btc-updown-15m-1770690600''\<rparr>"

text \<open>Replies of the model: the example of the specification and three variations.\<close>

definition reply :: "string \<Rightarrow> ChatMessage" where
  "reply text = \<lparr>role = ''assistant'', content = Some (JStr text), parsed = None\<rparr>"

definition example_content :: string where
  "example_content = ''{\"reasoning\":\"x\",\"decision\":{\"market_slug\":\"btc-updown-15m-1770690600\",\"direction\":\"UP\",\"size_usd\":\"10\",\"max_loss_usd\":null,\"edge_prob\":\"bad\"}}''"

definition sloppy_content :: string where
  "sloppy_content = ''{\"reasoning\":\"x\",\"decision\":{\"market_slug\":\"btc-updown-15m-1770690600\",\"direction\":\"SIDEWAYS\",\"size_usd\":5,\"max_loss_usd\":5,\"edge_prob\":0}}''"

definition array_content :: string where
  "array_content = ''{\"reasoning\":\"x\",\"decision\":[]}''"

definition bare_content :: string where
  "bare_content = ''{\"decision\":{}}''"

section \<open>Rounding\<close>

lemmas json_eval = json_parse_def skip_ws_def is_json_ws_def json_number_def is_digit_def
  exponent_part_def read_nat_def digit_val_def simple_escape_def scale10_def has_own_def Let_def

lemmas number_eval = StringToNumber_ascii_def parseFloat_ascii_def trim_def is_js_ws_def
  decimal_prefix_def signed_decimal_prefix_def radix_literal_def read_radix_def radix_digit_def

lemmas runtime_eval = js_ascii_def json_eval number_eval

lemma Math_round_of_int: "Math_round (of_int k) = of_int k"
proof -
  have "\<lfloor>(of_int k :: rat) + 1 / 2\<rfloor> = k"
    by (rule floor_unique) simp_all
  then show ?thesis by (simp add: Math_round_def)
qed

lemma round_to_scaled: "round_to d v * 10 ^ d = Math_round (v * 10 ^ d)"
  by (simp add: round_to_def)


lemma Math_round_fraction:
  "Math_round (numeral a / numeral b) = of_int ((2 * numeral a + numeral b) div (2 * numeral b))"
proof -
  have "(numeral a / numeral b :: rat) + 1 / 2
          = of_int (2 * numeral a + numeral b) / of_int (2 * numeral b)"
    by (simp add: field_simps)
  then have "\<lfloor>(numeral a / numeral b :: rat) + 1 / 2\<rfloor>
          = (2 * numeral a + numeral b) div (2 * numeral b)"
    by (simp only: floor_divide_of_int_eq)
  then show ?thesis by (simp only: Math_round_def)
qed

lemma Math_round_numeral: "Math_round (numeral a) = numeral a"
  using Math_round_of_int[of "numeral a"] by simp

lemma Math_round_0: "Math_round 0 = 0"
  using Math_round_of_int[of 0] by simp

lemmas round_eval = round4_def round_to_def Math_round_fraction Math_round_numeral Math_round_0



section \<open>The retry utility\<close>

lemma retry_loop_success:
  assumes "a \<le> k" "k \<le> m" "fn k = Inr v" "\<forall>j. a \<le> j \<and> j < k \<longrightarrow> isl (fn j)"
  shows "retry_loop fn m base a le sl c =
           \<lparr>outcome = Inr v, delays = sl @ map (delayMs base) [a..<k], invocations = c + (k - a) + 1\<rparr>"
  using assms
proof (induction "k - a" arbitrary: a le sl c)
  case 0
  then have "a = k" by simp
  with 0 show ?case by (simp add: retry_loop.simps[of fn m base k])
next
  case (Suc n)
  then have lt: "a < k" by simp
  then have "isl (fn a)" using Suc.prems by simp
  then obtain e where e: "fn a = Inl e" by (cases "fn a") auto
  have am: "a < m" using lt Suc.prems by simp
  have ih: "retry_loop fn m base (a + 1) (Some e) (sl @ [delayMs base a]) (Suc c) =
     \<lparr>outcome = Inr v, delays = (sl @ [delayMs base a]) @ map (delayMs base) [a + 1..<k],
      invocations = Suc c + (k - (a + 1)) + 1\<rparr>"
    using Suc.hyps(2) Suc.prems lt by (intro Suc.hyps(1)) auto
  have "[a..<k] = a # [a + 1..<k]" using lt by (simp add: upt_conv_Cons)
  then show ?case using e am ih lt
    by (simp add: retry_loop.simps[of fn m base a] delayMs_def)
qed

lemma retry_loop_exhausted:
  assumes "a \<le> m" "\<forall>j. a \<le> j \<and> j \<le> m \<longrightarrow> isl (fn j)"
  shows "retry_loop fn m base a le sl c =
           \<lparr>outcome = Inl (Some (projl (fn m))), delays = sl @ map (delayMs base) [a..<m],
            invocations = c + (m - a) + 1\<rparr>"
  using assms
proof (induction "m - a" arbitrary: a le sl c)
  case 0
  then have am: "a = m" by simp
  then have "isl (fn m)" using 0 by simp
  then obtain e where e: "fn m = Inl e" by (cases "fn m") auto
  show ?case using am e
    by (simp add: retry_loop.simps[of fn m base m] retry_loop.simps[of fn m base "Suc m"])
next
  case (Suc n)
  then have lt: "a < m" by simp
  have "isl (fn a)" using Suc.prems by simp
  then obtain e where e: "fn a = Inl e" by (cases "fn a") auto
  have ih: "retry_loop fn m base (a + 1) (Some e) (sl @ [delayMs base a]) (Suc c) =
     \<lparr>outcome = Inl (Some (projl (fn m))),
      delays = (sl @ [delayMs base a]) @ map (delayMs base) [a + 1..<m],
      invocations = Suc c + (m - (a + 1)) + 1\<rparr>"
    using Suc.hyps(2) Suc.prems lt by (intro Suc.hyps(1)) auto
  have "[a..<m] = a # [a + 1..<m]" using lt by (simp add: upt_conv_Cons)
  then show ?case using e lt ih
    by (simp add: retry_loop.simps[of fn m base a] delayMs_def)
qed

lemma upt_1_3: "[Suc 0..<3] = [Suc 0, 2]"
  by (simp add: upt_rec)

lemma upt_1_4: "[Suc 0..<4] = [Suc 0, 2, 3]"
  by (simp add: upt_rec)

lemma retry_loop_none: "m < a \<Longrightarrow> retry_loop fn m base a le sl c =
   \<lparr>outcome = Inl le, delays = sl, invocations = c\<rparr>"
  by (simp add: retry_loop.simps[of fn m base a])

lemma retry_success:
  assumes "1 \<le> k" "k \<le> effective_max options" "fn k = Inr v" "\<forall>j. 1 \<le> j \<and> j < k \<longrightarrow> isl (fn j)"
  shows "retry fn options =
     \<lparr>outcome = Inr v, delays = map (delayMs (effective_base options)) [1..<k], invocations = k\<rparr>"
  using retry_loop_success[OF assms(1) assms(2) assms(3) assms(4),
      of "effective_base options" None "[]" 0] assms(1)
  by (simp add: retry_def)

lemma retry_exhausted:
  assumes "1 \<le> effective_max options" "\<forall>j. 1 \<le> j \<and> j \<le> effective_max options \<longrightarrow> isl (fn j)"
  shows "retry fn options =
     \<lparr>outcome = Inl (Some (projl (fn (effective_max options)))),
      delays = map (delayMs (effective_base options)) [1..<effective_max options],
      invocations = effective_max options\<rparr>"
  using retry_loop_exhausted[OF assms(1) assms(2),
      of "effective_base options" None "[]" 0] assms(1)
  by (simp add: retry_def)

lemma retry_invocations_le: "invocations (retry fn options) \<le> effective_max options"
proof (cases "\<exists>k. 1 \<le> k \<and> k \<le> effective_max options \<and> \<not> isl (fn k)")
  case True
  define k where "k = (LEAST k. 1 \<le> k \<and> k \<le> effective_max options \<and> \<not> isl (fn k))"
  have P: "1 \<le> k \<and> k \<le> effective_max options \<and> \<not> isl (fn k)"
    unfolding k_def using True by (rule LeastI_ex)
  have min: "\<And>j. 1 \<le> j \<and> j < k \<Longrightarrow> isl (fn j)"
  proof (rule ccontr)
    fix j assume j: "1 \<le> j \<and> j < k" and "\<not> isl (fn j)"
    then have "1 \<le> j \<and> j \<le> effective_max options \<and> \<not> isl (fn j)" using P by simp
    then have "k \<le> j" unfolding k_def by (rule Least_le)
    with j show False by simp
  qed
  from P obtain v where v: "fn k = Inr v" by (cases "fn k") auto
  have "retry fn options =
     \<lparr>outcome = Inr v, delays = map (delayMs (effective_base options)) [1..<k], invocations = k\<rparr>"
  proof (rule retry_success)
    show "1 \<le> k" using P by simp
    show "k \<le> effective_max options" using P by simp
    show "fn k = Inr v" by (rule v)
    show "\<forall>j. 1 \<le> j \<and> j < k \<longrightarrow> isl (fn j)" using min by blast
  qed
  then have "invocations (retry fn options) = k" by simp
  with P show ?thesis by simp
next
  case False
  show ?thesis
  proof (cases "1 \<le> effective_max options")
    case True
    have "retry fn options =
     \<lparr>outcome = Inl (Some (projl (fn (effective_max options)))),
      delays = map (delayMs (effective_base options)) [1..<effective_max options],
      invocations = effective_max options\<rparr>"
    proof (rule retry_exhausted)
      show "1 \<le> effective_max options" by (rule True)
      show "\<forall>j. 1 \<le> j \<and> j \<le> effective_max options \<longrightarrow> isl (fn j)"
        using False by blast
    qed
    then show ?thesis by simp
  next
    case no: False
    then show ?thesis
      by (simp add: retry_def retry_loop_none)
  qed
qed


text \<open>
  Claim C6.  With the defaults \<open>maxAttempts = 3\<close> and \<open>backoffBase = 500\<close>, \<^verbatim>\<open>retry\<close>
  invokes the operation at most \<open>maxAttempts\<close> times; it stops at the first success and
  returns its value, having waited \<open>base * 2^(attempt - 1)\<close> after each failed attempt;
  when every one of the \<open>maxAttempts\<close> attempts fails it throws the error of the last
  one, having waited after each failed attempt but the last.  An operation that fails
  twice and then succeeds, under \<open>maxAttempts = 3\<close>, returns the value of the third
  invocation after waits of \<open>base\<close> and \<open>2 * base\<close>.
\<close>

theorem retry_contract:
  "effective_max no_options = 3 \<and> effective_base no_options = 500
   \<and> invocations (retry fn options) \<le> effective_max options
   \<and> (1 \<le> k \<and> k \<le> effective_max options \<and> fn k = Inr v
        \<and> (\<forall>j. 1 \<le> j \<and> j < k \<longrightarrow> isl (fn j))
      \<longrightarrow> retry fn options =
            \<lparr>outcome = Inr v,
             delays = map (\<lambda>attempt. effective_base options * 2 ^ (attempt - 1)) [1..<k],
             invocations = k\<rparr>)
   \<and> (1 \<le> effective_max options
        \<and> (\<forall>j. 1 \<le> j \<and> j \<le> effective_max options \<longrightarrow> isl (fn j))
      \<longrightarrow> retry fn options =
            \<lparr>outcome = Inl (Some (projl (fn (effective_max options)))),
             delays = map (\<lambda>attempt. effective_base options * 2 ^ (attempt - 1))
                        [1..<effective_max options],
             invocations = effective_max options\<rparr>)
   \<and> (fn 1 = Inl e1 \<and> fn 2 = Inl e2 \<and> fn 3 = Inr w
      \<longrightarrow> retry fn \<lparr>maxAttempts = Some 3, backoffBase = Some base\<rparr> =
            \<lparr>outcome = Inr w, delays = [base, 2 * base], invocations = 3\<rparr>)"
proof -
  have dm: "delayMs b = (\<lambda>attempt. b * 2 ^ (attempt - 1))" for b
    by (rule ext) (simp add: delayMs_def)
  have defaults: "effective_max no_options = 3 \<and> effective_base no_options = 500"
    by (simp add: effective_max_def effective_base_def no_options_def)
  have bound: "invocations (retry fn options) \<le> effective_max options"
    by (rule retry_invocations_le)
  have success: "1 \<le> k \<and> k \<le> effective_max options \<and> fn k = Inr v
        \<and> (\<forall>j. 1 \<le> j \<and> j < k \<longrightarrow> isl (fn j))
      \<longrightarrow> retry fn options =
            \<lparr>outcome = Inr v,
             delays = map (\<lambda>attempt. effective_base options * 2 ^ (attempt - 1)) [1..<k],
             invocations = k\<rparr>"
    using retry_success[of k options fn v] by (simp add: dm)
  have exhausted: "1 \<le> effective_max options
        \<and> (\<forall>j. 1 \<le> j \<and> j \<le> effective_max options \<longrightarrow> isl (fn j))
      \<longrightarrow> retry fn options =
            \<lparr>outcome = Inl (Some (projl (fn (effective_max options)))),
             delays = map (\<lambda>attempt. effective_base options * 2 ^ (attempt - 1))
                        [1..<effective_max options],
             invocations = effective_max options\<rparr>"
    using retry_exhausted[of options fn] by (simp add: dm)
  have example: "fn 1 = Inl e1 \<and> fn 2 = Inl e2 \<and> fn 3 = Inr w
      \<longrightarrow> retry fn \<lparr>maxAttempts = Some 3, backoffBase = Some base\<rparr> =
            \<lparr>outcome = Inr w, delays = [base, 2 * base], invocations = 3\<rparr>"
  proof
    assume f: "fn 1 = Inl e1 \<and> fn 2 = Inl e2 \<and> fn 3 = Inr w"
    have early: "\<forall>j. 1 \<le> j \<and> j < 3 \<longrightarrow> isl (fn j)"
    proof (intro allI impI)
      fix j :: nat assume "1 \<le> j \<and> j < 3"
      then have "j = 1 \<or> j = 2" by arith
      with f show "isl (fn j)" by auto
    qed
    have "retry fn \<lparr>maxAttempts = Some 3, backoffBase = Some base\<rparr> =
       \<lparr>outcome = Inr w,
        delays = map (delayMs (effective_base \<lparr>maxAttempts = Some 3, backoffBase = Some base\<rparr>)) [1..<3],
        invocations = 3\<rparr>"
      by (rule retry_success) (use f early in \<open>simp_all add: effective_max_def\<close>)
    then show "retry fn \<lparr>maxAttempts = Some 3, backoffBase = Some base\<rparr> =
            \<lparr>outcome = Inr w, delays = [base, 2 * base], invocations = 3\<rparr>"
      by (simp add: effective_base_def delayMs_def upt_1_3)
  qed
  from defaults bound success exhausted example show ?thesis by blast
qed

theorem retry_contract_witness:
  "retry (\<lambda>k. if k < 3 then Inl ''timeout'' else Inr (42::nat)) no_options =
     \<lparr>outcome = Inr 42, delays = [500, 1000], invocations = 3\<rparr>
   \<and> retry (\<lambda>k. Inl k :: nat + nat) \<lparr>maxAttempts = Some 4, backoffBase = Some 100\<rparr> =
     \<lparr>outcome = Inl (Some 4), delays = [100, 200, 400], invocations = 4\<rparr>"
proof -
  have a: "retry (\<lambda>k. if k < 3 then Inl ''timeout'' else Inr (42::nat)) no_options =
     \<lparr>outcome = Inr 42, delays = [500, 1000], invocations = 3\<rparr>"
    using retry_contract[of "\<lambda>k. if k < 3 then Inl ''timeout'' else Inr (42::nat)" no_options 3 42]
    by (simp add: upt_1_3)
  have b: "retry (\<lambda>k. Inl k :: nat + nat) \<lparr>maxAttempts = Some 4, backoffBase = Some 100\<rparr> =
     \<lparr>outcome = Inl (Some 4), delays = [100, 200, 400], invocations = 4\<rparr>"
    using retry_contract[of "\<lambda>k. Inl k :: nat + nat"
        "\<lparr>maxAttempts = Some 4, backoffBase = Some 100\<rparr>" 0 0]
    by (simp add: effective_max_def effective_base_def upt_1_4)
  from a b show ?thesis by blast
qed

section \<open>The indicator gateway\<close>

lemma await_retry_all_fail:
  assumes "\<forall>k. 1 \<le> k \<and> k \<le> 3 \<longrightarrow> isl (fn k)"
  shows "await_retry fn = Inl (projl (fn 3))"
proof -
  have m: "effective_max no_options = 3"
    by (simp add: effective_max_def no_options_def)
  have "retry fn no_options =
     \<lparr>outcome = Inl (Some (projl (fn (effective_max no_options)))),
      delays = map (delayMs (effective_base no_options)) [1..<effective_max no_options],
      invocations = effective_max no_options\<rparr>"
    by (rule retry_exhausted) (use assms m in simp_all)
  then show ?thesis by (simp add: await_retry_def thrown_def m)
qed

lemma fetchValue_total: "\<exists>v. fetchValue net i s t p key = Inr v"
  by (cases "fetchValue_try net i s t p key") (simp_all add: fetchValue_def)

lemma fetchSeries_total: "\<exists>xs. fetchSeries net i s t n p key = Inr xs"
  by (cases "fetchSeries_try net i s t n p key") (simp_all add: fetchSeries_def)

lemma fetchValue_rejected:
  "await_retry (net (value_request i s t p)) = Inl e \<Longrightarrow> fetchValue net i s t p key = Inr None"
  by (simp add: fetchValue_def fetchValue_try_def)

lemma fetchSeries_rejected:
  "await_retry (net (series_request i s t n p)) = Inl e \<Longrightarrow> fetchSeries net i s t n p key = Inr []"
  by (simp add: fetchSeries_def fetchSeries_try_def getHistoricalIndicator_def)

lemma fetchValue_no_number:
  assumes "await_retry (net (value_request i s t p)) = Inr body"
    and "\<forall>r. get_field body key \<noteq> Some (JNum r)"
  shows "fetchValue net i s t p key = Inr None"
  using assms
  by (auto simp: fetchValue_def fetchValue_try_def split: option.splits json.splits)

lemma fetchValue_number:
  assumes "await_retry (net (value_request i s t p)) = Inr body"
    and "get_field body key = Some (JNum r)"
  shows "fetchValue net i s t p key = Inr (Some (round4 r))"
proof -
  have "body \<noteq> JNull" using assms(2) by auto
  then show ?thesis using assms by (simp add: fetchValue_def fetchValue_try_def)
qed

lemma fetchSeries_no_array:
  assumes "await_retry (net (series_request i s t n p)) = Inr body"
    and "\<forall>xs. get_field body key \<noteq> Some (JArr xs)"
  shows "fetchSeries net i s t n p key = Inr []"
  using assms
  by (cases body)
     (auto simp: fetchSeries_def fetchSeries_try_def getHistoricalIndicator_def
           split: option.splits json.splits)

lemma fetchSeries_array:
  assumes "await_retry (net (series_request i s t n p)) = Inr (JObj kvs)"
    and "map_of kvs key = Some (JArr xs)"
  shows "fetchSeries net i s t n p key = Inr (map round_entry xs)"
  using assms
  by (simp add: fetchSeries_def fetchSeries_try_def getHistoricalIndicator_def)


lemmas retry_eval = await_retry_def retry_def retry_loop.simps effective_max_def
  effective_base_def no_options_def delayMs_def thrown_def

lemma await_retry_first: "fn 1 = Inr v \<Longrightarrow> await_retry fn = Inr v"
  by (simp add: retry_eval)

text \<open>
  Claim C4.  The indicator gateway never raises: \<^verbatim>\<open>fetchValue\<close> and \<^verbatim>\<open>fetchSeries\<close>
  return a value on every input.  When every attempt of the request is rejected (network
  error, timeout, HTTP 500), \<^verbatim>\<open>fetchValue\<close> returns \<^verbatim>\<open>null\<close> and \<^verbatim>\<open>fetchSeries\<close> the
  empty array; so they do when a response arrives whose body is malformed, lacks the
  field, or holds something that is not a number (for \<^verbatim>\<open>fetchValue\<close>) or not an array
  (for \<^verbatim>\<open>fetchSeries\<close>) under the key.
\<close>

theorem gateway_never_raises:
  "(\<exists>v. fetchValue net i s t p key = Inr v)
   \<and> (\<exists>xs. fetchSeries net i s t n p key = Inr xs)
   \<and> ((\<forall>k. 1 \<le> k \<and> k \<le> 3 \<longrightarrow> isl (net (value_request i s t p) k))
        \<longrightarrow> fetchValue net i s t p key = Inr None)
   \<and> ((\<forall>k. 1 \<le> k \<and> k \<le> 3 \<longrightarrow> isl (net (series_request i s t n p) k))
        \<longrightarrow> fetchSeries net i s t n p key = Inr [])
   \<and> (await_retry (net (value_request i s t p)) = Inr body
        \<and> (\<forall>r. get_field body key \<noteq> Some (JNum r))
        \<longrightarrow> fetchValue net i s t p key = Inr None)
   \<and> (await_retry (net (series_request i s t n p)) = Inr body'
        \<and> (\<forall>xs. get_field body' key \<noteq> Some (JArr xs))
        \<longrightarrow> fetchSeries net i s t n p key = Inr [])"
proof -
  have a: "\<exists>v. fetchValue net i s t p key = Inr v" by (rule fetchValue_total)
  have b: "\<exists>xs. fetchSeries net i s t n p key = Inr xs" by (rule fetchSeries_total)
  have c: "(\<forall>k. 1 \<le> k \<and> k \<le> 3 \<longrightarrow> isl (net (value_request i s t p) k))
        \<longrightarrow> fetchValue net i s t p key = Inr None"
    using await_retry_all_fail[of "net (value_request i s t p)"] fetchValue_rejected by blast
  have d: "(\<forall>k. 1 \<le> k \<and> k \<le> 3 \<longrightarrow> isl (net (series_request i s t n p) k))
        \<longrightarrow> fetchSeries net i s t n p key = Inr []"
    using await_retry_all_fail[of "net (series_request i s t n p)"] fetchSeries_rejected by blast
  have e: "await_retry (net (value_request i s t p)) = Inr body
        \<and> (\<forall>r. get_field body key \<noteq> Some (JNum r))
        \<longrightarrow> fetchValue net i s t p key = Inr None"
    using fetchValue_no_number by blast
  have f: "await_retry (net (series_request i s t n p)) = Inr body'
        \<and> (\<forall>xs. get_field body' key \<noteq> Some (JArr xs))
        \<longrightarrow> fetchSeries net i s t n p key = Inr []"
    using fetchSeries_no_array by blast
  from a b c d e f show ?thesis by blast
qed

theorem gateway_never_raises_witness:
  "fetchValue (\<lambda>rq k. Inl (Rejected ''timeout'')) ''rsi'' ''BTC/USDT'' ''5m'' [] ''value'' = Inr None
   \<and> fetchSeries (\<lambda>rq k. Inl (Rejected ''HTTP 500'')) ''rsi'' ''BTC/USDT'' ''5m'' 10 [] ''value'' = Inr []
   \<and> fetchValue (\<lambda>rq k. if k < 2 then Inl (Rejected ''HTTP 500'') else Inr (JObj [(''value'', JStr ''n/a'')]))
        ''rsi'' ''BTC/USDT'' ''5m'' [] ''value'' = Inr None
   \<and> fetchSeries (\<lambda>rq k. Inr (JStr ''<html>Bad Gateway</html>''))
        ''rsi'' ''BTC/USDT'' ''5m'' 10 [] ''value'' = Inr []"
proof -
  have a: "fetchValue (\<lambda>rq k. Inl (Rejected ''timeout'')) ''rsi'' ''BTC/USDT'' ''5m'' [] ''value'' = Inr None"
    using gateway_never_raises[of "\<lambda>rq k. Inl (Rejected ''timeout'')" "''rsi''" "''BTC/USDT''"
        "''5m''" "[]" "''value''" 10 JNull JNull]
    by simp
  have b: "fetchSeries (\<lambda>rq k. Inl (Rejected ''HTTP 500'')) ''rsi'' ''BTC/USDT'' ''5m'' 10 [] ''value'' = Inr []"
    using gateway_never_raises[of "\<lambda>rq k. Inl (Rejected ''HTTP 500'')" "''rsi''" "''BTC/USDT''"
        "''5m''" "[]" "''value''" 10 JNull JNull]
    by simp
  have c: "fetchValue (\<lambda>rq k. if k < 2 then Inl (Rejected ''HTTP 500'') else Inr (JObj [(''value'', JStr ''n/a'')]))
        ''rsi'' ''BTC/USDT'' ''5m'' [] ''value'' = Inr None"
    using gateway_never_raises[of
        "\<lambda>rq k. if k < 2 then Inl (Rejected ''HTTP 500'') else Inr (JObj [(''value'', JStr ''n/a'')])"
        "''rsi''" "''BTC/USDT''" "''5m''" "[]" "''value''" 10 "JObj [(''value'', JStr ''n/a'')]" JNull]
    by (simp add: retry_eval)
  have d: "fetchSeries (\<lambda>rq k. Inr (JStr ''<html>Bad Gateway</html>''))
        ''rsi'' ''BTC/USDT'' ''5m'' 10 [] ''value'' = Inr []"
    using gateway_never_raises[of "\<lambda>rq k. Inr (JStr ''<html>Bad Gateway</html>'')"
        "''rsi''" "''BTC/USDT''" "''5m''" "[]" "''value''" 10 JNull "JStr ''<html>Bad Gateway</html>''"]
    by (simp add: retry_eval index_of_key_def)
  from a b c d show ?thesis by blast
qed

section \<open>The market data aggregator\<close>




lemma series_filter_length: "series_filter B vs = Inr rs \<Longrightarrow> length rs \<le> length vs"
proof (induction vs arbitrary: rs)
  case Nil
  then show ?case by simp
next
  case (Cons v vs)
  show ?case
  proof (cases "series_filter B vs")
    case (Inl e)
    with Cons.prems show ?thesis
      by (auto split: if_splits sum.splits jsnum.splits)
  next
    case (Inr rest)
    then have "length rest \<le> length vs" by (rule Cons.IH)
    with Inr Cons.prems show ?thesis
      by (auto split: if_splits sum.splits jsnum.splits)
  qed
qed











lemma sections_cases:
  "sec \<in> set (fst (getCurrentMarketData B cl now options)) \<Longrightarrow> gather B cl now options = Inr sec"
  by (auto simp: getCurrentMarketData_def split: sum.splits)



lemmas aggregator_eval = getCurrentMarketData_def gather_def intradayTf_of_def
  longTermTf_of_def results_of_def fetchAssetMarketData_def
  fetchIndicatorsByDefs_def fetch_def_def intradayDefs_of_def longTermDefs_of_def
  ids_or_default_def getIndicatorsByIds_def AVAILABLE_INDICATORS_def List.map_filter_def
  TaapiClientService_def fetchValue_def fetchValue_try_def fetchSeries_def fetchSeries_try_def
  getHistoricalIndicator_def getHistoricalData_def value_request_def series_request_def
  await_retry_first multi_keys_def value_key_def roundSeries_def roundOrNull_def
  last_or_null_def multi_arr_def round_entry_def ToNumber_def round_eval





lemma keys_update: "fst ` set (AList.update k v al) = insert k (fst ` set al)"
  using dom_update[of k v al] by auto

lemma multi_outputs_keys:
  "multi_outputs B data mks acc = Inr acc' \<Longrightarrow>
     set (map fst (vals acc')) = set (map fst (vals acc)) \<union> set (map outputId mks)
     \<and> set (map fst (series acc')) = set (map fst (series acc)) \<union> set (map outputId mks)"
proof (induction mks arbitrary: acc)
  case Nil
  then show ?case by simp
next
  case (Cons mk mks)
  from Cons.prems obtain rs v where
    rest: "multi_outputs B data mks
                 \<lparr>vals = AList.update (outputId mk) v (vals acc),
                  series = AList.update (outputId mk) rs (series acc)\<rparr> = Inr acc'"
    by (auto split: if_splits sum.splits)
  from Cons.IH[OF rest] show ?case by (simp add: keys_update)
qed

lemma fetch_def_keys:
  assumes "fetch_def B cl s t n d acc = Inr acc'"
  shows "set (map fst (vals acc')) = set (map fst (vals acc)) \<union> set (expected_value_ids d)
     \<and> set (map fst (series acc')) = set (map fst (series acc)) \<union> set (expected_series_ids d)"
proof -
  consider (multi) "multi_keys d \<noteq> []"
    | (ser) "multi_keys d = []" "fetchSeries_flag d \<and> value_key d \<noteq> []"
    | (val) "multi_keys d = []" "\<not> (fetchSeries_flag d \<and> value_key d \<noteq> [])" "value_key d \<noteq> []"
    | (none) "multi_keys d = []" "\<not> (fetchSeries_flag d \<and> value_key d \<noteq> [])" "value_key d = []"
    by blast
  then show ?thesis
  proof cases
    case multi
    with assms obtain data where
      "multi_outputs B data (multi_keys d) acc = Inr acc'"
      by (auto simp: fetch_def_def split: sum.splits)
    from multi_outputs_keys[OF this] multi show ?thesis
      by (simp add: expected_value_ids_def expected_series_ids_def)
  next
    case ser
    with assms obtain rs v where
      acc': "acc' = \<lparr>vals = AList.update (ind_id d) v (vals acc),
                        series = AList.update (ind_id d) rs (series acc)\<rparr>"
      by (auto simp: fetch_def_def split: sum.splits)
    show ?thesis unfolding acc' using ser
      by (simp add: expected_value_ids_def expected_series_ids_def keys_update)
  next
    case val
    with assms obtain v where
      acc': "acc' = \<lparr>vals = AList.update (ind_id d) v (vals acc), series = series acc\<rparr>"
      by (auto simp: fetch_def_def split: sum.splits)
    show ?thesis unfolding acc' using val
      by (auto simp add: expected_value_ids_def expected_series_ids_def keys_update)
  next
    case none
    with assms show ?thesis
      by (simp add: fetch_def_def expected_value_ids_def expected_series_ids_def)
  qed
qed

lemma defs_loop_keys:
  "defs_loop B cl s t n defs acc = Inr acc' \<Longrightarrow>
     set (map fst (vals acc')) = set (map fst (vals acc)) \<union> set (concat (map expected_value_ids defs))
     \<and> set (map fst (series acc')) = set (map fst (series acc)) \<union> set (concat (map expected_series_ids defs))"
proof (induction defs arbitrary: acc)
  case Nil
  then show ?case by simp
next
  case (Cons d ds)
  from Cons.prems obtain mid where
    step: "fetch_def B cl s t n d acc = Inr mid" and rest: "defs_loop B cl s t n ds mid = Inr acc'"
    by (auto split: sum.splits)
  from fetch_def_keys[OF step] Cons.IH[OF rest] show ?case by auto
qed

lemma fetchIndicatorsByDefs_complete:
  "fetchIndicatorsByDefs B cl a t n defs = Inr ind \<Longrightarrow> bundle_complete defs ind"
  unfolding fetchIndicatorsByDefs_def bundle_complete_def
  by (drule defs_loop_keys) simp

lemma fetch_def_call_fails:
  "client_call_fails cl s t n d \<Longrightarrow> isl (fetch_def B cl s t n d acc)"
  by (auto simp: client_call_fails_def fetch_def_def isl_def split: if_splits)

lemma defs_loop_call_fails:
  "d \<in> set defs \<Longrightarrow> client_call_fails cl s t n d \<Longrightarrow> isl (defs_loop B cl s t n defs acc)"
proof (induction defs arbitrary: acc)
  case Nil
  then show ?case by simp
next
  case (Cons x xs)
  show ?case
  proof (cases "fetch_def B cl s t n x acc")
    case (Inl e)
    then show ?thesis by simp
  next
    case (Inr mid)
    have "x \<noteq> d"
    proof
      assume "x = d"
      with Cons.prems(2) have "isl (fetch_def B cl s t n x acc)"
        by (simp add: fetch_def_call_fails)
      with Inr show False by simp
    qed
    with Cons.prems(1) have "d \<in> set xs" by simp
    then have "isl (defs_loop B cl s t n xs mid)" using Cons.prems(2) by (rule Cons.IH)
    with Inr show ?thesis by simp
  qed
qed


lemma gather_call_fails:
  assumes "some_call_fails cl options"
  shows "isl (gather B cl now options)"
proof -
  let ?s = "opt_asset options @ ''/USDT''"
  from assms consider
      (i) d where "d \<in> set (intradayDefs_of options)"
          "client_call_fails cl ?s (intradayTf_of options) (results_of options) d"
    | (l) d where "d \<in> set (longTermDefs_of options)"
          "client_call_fails cl ?s (longTermTf_of options) (results_of options) d"
    | (p) "isl (cl_fetchValue cl ''price'' ?s (intradayTf_of options) [] ''value'')"
    by (auto simp: some_call_fails_def list_ex_iff)
  then show ?thesis
  proof cases
    case i
    then have "isl (fetchIndicatorsByDefs B cl (opt_asset options) (intradayTf_of options)
                      (results_of options) (intradayDefs_of options))"
      unfolding fetchIndicatorsByDefs_def by (rule defs_loop_call_fails)
    then show ?thesis
      by (auto simp: gather_def fetchAssetMarketData_def isl_def)
  next
    case l
    then have "isl (fetchIndicatorsByDefs B cl (opt_asset options) (longTermTf_of options)
                      (results_of options) (longTermDefs_of options))"
      unfolding fetchIndicatorsByDefs_def by (rule defs_loop_call_fails)
    then show ?thesis
      by (auto simp: gather_def fetchAssetMarketData_def isl_def split: sum.splits)
  next
    case p
    then show ?thesis
      by (auto simp: gather_def fetchAssetMarketData_def isl_def split: sum.splits)
  qed
qed

lemma gather_complete:
  assumes "gather B cl now options = Inr sec"
  shows "asset sec = opt_asset options \<and> timestamp sec = now
         \<and> bundle_complete (intradayDefs_of options) (intraday sec)
         \<and> bundle_complete (longTermDefs_of options) (long_term sec)"
  using assms
  by (auto simp: gather_def fetchAssetMarketData_def split: sum.splits
           dest: fetchIndicatorsByDefs_complete)

text \<open>
  Claim C5.  \<^verbatim>\<open>getCurrentMarketData\<close> returns the section of the asset when its gather
  succeeded and the empty list when the gather raised: the exception is caught (and
  handed to the logger when there is one), not raised again.  A call to the client that
  throws makes the gather raise, so no section is returned for an asset one of whose
  fetches failed; and a section that is returned is complete: it carries the requested
  asset and, in both bundles, an entry for every output of every resolved indicator
  definition and for nothing else.
\<close>

theorem aggregator_omits_failed_asset:
  "(gather B cl now options = Inl e \<longrightarrow>
      getCurrentMarketData B cl now options =
        ([], if logger options then [(opt_asset options, e)] else []))
   \<and> (gather B cl now options = Inr section \<longrightarrow>
        getCurrentMarketData B cl now options = ([section], []))
   \<and> (some_call_fails cl options \<longrightarrow>
        isl (gather B cl now options) \<and> fst (getCurrentMarketData B cl now options) = [])
   \<and> (\<forall>sec \<in> set (fst (getCurrentMarketData B cl now options)).
        asset sec = opt_asset options \<and> timestamp sec = now
        \<and> bundle_complete (intradayDefs_of options) (intraday sec)
        \<and> bundle_complete (longTermDefs_of options) (long_term sec))"
proof -
  have a: "gather B cl now options = Inl e \<longrightarrow>
      getCurrentMarketData B cl now options =
        ([], if logger options then [(opt_asset options, e)] else [])"
    by (simp add: getCurrentMarketData_def)
  have b: "gather B cl now options = Inr section \<longrightarrow>
        getCurrentMarketData B cl now options = ([section], [])"
    by (simp add: getCurrentMarketData_def)
  have c: "some_call_fails cl options \<longrightarrow>
        isl (gather B cl now options) \<and> fst (getCurrentMarketData B cl now options) = []"
    using gather_call_fails[of cl options B now]
    by (auto simp: getCurrentMarketData_def isl_def)
  have d: "\<forall>sec \<in> set (fst (getCurrentMarketData B cl now options)).
        asset sec = opt_asset options \<and> timestamp sec = now
        \<and> bundle_complete (intradayDefs_of options) (intraday sec)
        \<and> bundle_complete (longTermDefs_of options) (long_term sec)"
    using sections_cases gather_complete by blast
  from a b c d show ?thesis by blast
qed

theorem aggregator_omits_failed_asset_witness:
  "some_call_fails failing_client demo_options
   \<and> fst (getCurrentMarketData js_ascii failing_client ''2026-02-10T02:30:05.000Z'' demo_options) = []
   \<and> getCurrentMarketData js_ascii (TaapiClientService hostile_net)
        ''2026-02-10T02:30:05.000Z'' demo_options = ([], [(''BTC'', TypeError)])
   \<and> getCurrentMarketData js_ascii (TaapiClientService demo_net)
        ''2026-02-10T02:30:05.000Z'' demo_options = ([demo_section], [])
   \<and> bundle_complete (intradayDefs_of demo_options) (intraday demo_section)
   \<and> bundle_complete (longTermDefs_of demo_options) (long_term demo_section)"
proof -
  have fails: "some_call_fails failing_client demo_options"
    by (simp add: some_call_fails_def client_call_fails_def failing_client_def demo_options_def
        intradayDefs_of_def longTermDefs_of_def ids_or_default_def getIndicatorsByIds_def
        AVAILABLE_INDICATORS_def List.map_filter_def multi_keys_def value_key_def)
  have hostile: "gather js_ascii (TaapiClientService hostile_net)
        ''2026-02-10T02:30:05.000Z'' demo_options = Inl TypeError"
    by (simp add: aggregator_eval demo_options_def runtime_eval demo_net_def hostile_net_def
        has_own_def)
  have ok: "gather js_ascii (TaapiClientService demo_net)
        ''2026-02-10T02:30:05.000Z'' demo_options = Inr demo_section"
    by (simp add: aggregator_eval demo_options_def runtime_eval demo_net_def
        demo_section_def)
  have lg: "logger demo_options" "opt_asset demo_options = ''BTC''"
    by (simp_all add: demo_options_def)
  from fails hostile ok lg
    aggregator_omits_failed_asset[of js_ascii failing_client "''2026-02-10T02:30:05.000Z''"
      demo_options TypeError demo_section]
    aggregator_omits_failed_asset[of js_ascii "TaapiClientService hostile_net"
      "''2026-02-10T02:30:05.000Z''" demo_options TypeError demo_section]
    aggregator_omits_failed_asset[of js_ascii "TaapiClientService demo_net"
      "''2026-02-10T02:30:05.000Z''" demo_options TypeError demo_section]
  show ?thesis by simp
qed


section \<open>The market snapshot gateway\<close>

lemma parseOutcomes_malformed:
  "malformed_market B m \<Longrightarrow> parseOutcomes B (pm_outcomes m) (pm_outcomePrices m) = Inr []"
  by (auto simp: malformed_market_def parseOutcomes_def split: option.splits json.splits)

lemma markets_loop_drop:
  assumes "parseOutcomes B (pm_outcomes m) (pm_outcomePrices m) = Inr []"
  shows "markets_loop B ev sl (before @ m # after) = markets_loop B ev sl (before @ after)"
proof (induction before)
  case Nil
  show ?case using assms by (simp split: sum.splits)
next
  case (Cons x xs)
  then show ?case by (simp split: sum.splits)
qed

lemma market_entry_event_markets:
  "market_entry (ev\<lparr>ev_markets := ms'\<rparr>) sl m os = market_entry ev sl m os"
  by (simp add: market_entry_def cong: option.case_cong)

lemma markets_loop_event_markets:
  "markets_loop B (ev\<lparr>ev_markets := ms'\<rparr>) sl ms = markets_loop B ev sl ms"
  by (induction ms) (simp_all add: market_entry_event_markets split: sum.splits)

lemma event_skipped_markets:
  "event_skipped options (ev\<lparr>ev_markets := ms'\<rparr>) = event_skipped options ev"
  by (simp add: event_skipped_def cong: option.case_cong)

lemma events_loop_drop:
  assumes "parseOutcomes B (pm_outcomes m) (pm_outcomePrices m) = Inr []"
  shows "events_loop B options (evs @ ev\<lparr>ev_markets := Some (before @ m # after)\<rparr> # evs')
       = events_loop B options (evs @ ev\<lparr>ev_markets := Some (before @ after)\<rparr> # evs')"
proof (induction evs)
  case Nil
  show ?case
    by (simp add: event_skipped_markets markets_loop_event_markets markets_loop_drop[OF assms]
             split: sum.splits)
next
  case (Cons x xs)
  then show ?case by (simp split: sum.splits)
qed

lemma markets_loop_pair:
  assumes bad: "parseOutcomes B (pm_outcomes m) (pm_outcomePrices m) = Inr []"
    and good: "parseOutcomes B (pm_outcomes w) (pm_outcomePrices w) = Inr os" "os \<noteq> []"
  shows "markets_loop B ev sl [m, w] = Inr [market_entry ev sl w os]"
    and "markets_loop B ev sl [w, m] = Inr [market_entry ev sl w os]"
  using assms by simp_all

lemmas outcomes_eval = parseOutcomes_def parse_price_def num_or_def

lemma ex_bad: "malformed_market js_ascii
   \<lparr>pm_id = Some ''m-bad'', pm_question = Some ''Broken market'',
          pm_outcomes = Some ''[\"Up\", \"Down\"]'', pm_outcomePrices = Some ''[0.5'',
          pm_clobTokenIds = None\<rparr>"
  by (simp add: malformed_market_def runtime_eval)

lemma ex_good: "parseOutcomes js_ascii (Some ''[\"Up\", \"Down\"]'') (Some ''[\"0.52\", \"0.48\"]'')
   = Inr [\<lparr>label = JStr ''Up'', price = 13 / 25\<rparr>, \<lparr>label = JStr ''Down'', price = 12 / 25\<rparr>]"
  by (simp add: outcomes_eval runtime_eval)

lemma ex_fetch: "fetchBtcUpDownMarkets js_ascii demo_gamma slug_options =
   Inr [\<lparr>market_id = ''m-ok'', question = ''BTC up or down?'', slug = ''btc-updown-15m-1770690600'',
         outcomes = [\<lparr>label = JStr ''Up'', price = 13 / 25\<rparr>, \<lparr>label = JStr ''Down'', price = 12 / 25\<rparr>],
         clobTokenIds = [''111'', ''222'']\<rparr>]"
  by (simp add: fetchBtcUpDownMarkets_def slug_of_def slug_options_def demo_gamma_def
      up_down_event_def event_skipped_def market_entry_def outcomes_eval runtime_eval)


text \<open>
  Claim C7.  A market whose JSON-encoded outcome labels or outcome prices are malformed
  JSON, are not arrays, or have different lengths makes \<^verbatim>\<open>parseOutcomes\<close> return the
  empty list, not raise; the market is left out of the results, which are those of the
  same event without it, so that the sound markets of the event are still returned.
\<close>

theorem malformed_market_excluded:
  "(malformed_market B m \<longrightarrow>
      parseOutcomes B (pm_outcomes m) (pm_outcomePrices m) = Inr []
      \<and> markets_loop B ev sl (before @ m # after) = markets_loop B ev sl (before @ after)
      \<and> events_loop B options (evs @ ev\<lparr>ev_markets := Some (before @ m # after)\<rparr> # evs')
          = events_loop B options (evs @ ev\<lparr>ev_markets := Some (before @ after)\<rparr> # evs'))
   \<and> (malformed_market B m
        \<and> parseOutcomes B (pm_outcomes w) (pm_outcomePrices w) = Inr os \<and> os \<noteq> [] \<longrightarrow>
      markets_loop B ev sl [m, w] = Inr [market_entry ev sl w os]
      \<and> markets_loop B ev sl [w, m] = Inr [market_entry ev sl w os])"
proof -
  have a: "malformed_market B m \<longrightarrow>
      parseOutcomes B (pm_outcomes m) (pm_outcomePrices m) = Inr []
      \<and> markets_loop B ev sl (before @ m # after) = markets_loop B ev sl (before @ after)
      \<and> events_loop B options (evs @ ev\<lparr>ev_markets := Some (before @ m # after)\<rparr> # evs')
          = events_loop B options (evs @ ev\<lparr>ev_markets := Some (before @ after)\<rparr> # evs')"
    using parseOutcomes_malformed[of B m] markets_loop_drop[of B m ev sl before after]
      events_loop_drop[where B = B and m = m and options = options and evs = evs and ev = ev
        and before = before and after = after and evs' = evs']
    by blast
  have b: "malformed_market B m
        \<and> parseOutcomes B (pm_outcomes w) (pm_outcomePrices w) = Inr os \<and> os \<noteq> [] \<longrightarrow>
      markets_loop B ev sl [m, w] = Inr [market_entry ev sl w os]
      \<and> markets_loop B ev sl [w, m] = Inr [market_entry ev sl w os]"
    using parseOutcomes_malformed[of B m] markets_loop_pair[of B m w os ev sl] by blast
  from a b show ?thesis by blast
qed

theorem malformed_market_excluded_witness:
  "JSON_parse js_ascii ''[0.5'' = None
   \<and> parseOutcomes js_ascii (Some ''[\"Up\", \"Down\"]'') (Some ''[0.5'') = Inr []
   \<and> markets_loop js_ascii up_down_event ''btc-updown-15m-1770690600''
        [\<lparr>pm_id = Some ''m-bad'', pm_question = Some ''Broken market'',
          pm_outcomes = Some ''[\"Up\", \"Down\"]'', pm_outcomePrices = Some ''[0.5'',
          pm_clobTokenIds = None\<rparr>,
         \<lparr>pm_id = Some ''m-ok'', pm_question = Some ''BTC up or down?'',
          pm_outcomes = Some ''[\"Up\", \"Down\"]'',
          pm_outcomePrices = Some ''[\"0.52\", \"0.48\"]'',
          pm_clobTokenIds = Some [''111'', ''222'']\<rparr>] =
       Inr [\<lparr>market_id = ''m-ok'', question = ''BTC up or down?'',
             slug = ''btc-updown-15m-1770690600'',
             outcomes = [\<lparr>label = JStr ''Up'', price = 13 / 25\<rparr>,
                         \<lparr>label = JStr ''Down'', price = 12 / 25\<rparr>],
             clobTokenIds = [''111'', ''222'']\<rparr>]
   \<and> fetchBtcUpDownMarkets js_ascii demo_gamma slug_options =
       Inr [\<lparr>market_id = ''m-ok'', question = ''BTC up or down?'',
             slug = ''btc-updown-15m-1770690600'',
             outcomes = [\<lparr>label = JStr ''Up'', price = 13 / 25\<rparr>,
                         \<lparr>label = JStr ''Down'', price = 12 / 25\<rparr>],
             clobTokenIds = [''111'', ''222'']\<rparr>]"
proof -
  let ?bad = "\<lparr>pm_id = Some ''m-bad'', pm_question = Some ''Broken market'',
          pm_outcomes = Some ''[\"Up\", \"Down\"]'', pm_outcomePrices = Some ''[0.5'',
          pm_clobTokenIds = None\<rparr>"
  let ?ok = "\<lparr>pm_id = Some ''m-ok'', pm_question = Some ''BTC up or down?'',
          pm_outcomes = Some ''[\"Up\", \"Down\"]'',
          pm_outcomePrices = Some ''[\"0.52\", \"0.48\"]'',
          pm_clobTokenIds = Some [''111'', ''222'']\<rparr>"
  let ?os = "[\<lparr>label = JStr ''Up'', price = 13 / 25\<rparr>, \<lparr>label = JStr ''Down'', price = 12 / 25\<rparr>]"
  have p: "JSON_parse js_ascii ''[0.5'' = None"
    by (simp add: runtime_eval)
  have good: "parseOutcomes js_ascii (pm_outcomes ?ok) (pm_outcomePrices ?ok) = Inr ?os"
    using ex_good by simp
  have ne: "?os \<noteq> []" by simp
  have loop: "parseOutcomes js_ascii (pm_outcomes ?bad) (pm_outcomePrices ?bad) = Inr []
     \<and> markets_loop js_ascii up_down_event ''btc-updown-15m-1770690600'' [?bad, ?ok] =
       Inr [market_entry up_down_event ''btc-updown-15m-1770690600'' ?ok ?os]"
    using ex_bad good ne
      malformed_market_excluded[where B = js_ascii and m = ?bad and ev = up_down_event
        and sl = "''btc-updown-15m-1770690600''" and before = "[]" and after = "[?ok]"
        and options = slug_options and evs = "[]" and evs' = "[]" and w = ?ok and os = ?os]
    by blast
  have entry: "market_entry up_down_event ''btc-updown-15m-1770690600'' ?ok ?os =
       \<lparr>market_id = ''m-ok'', question = ''BTC up or down?'',
        slug = ''btc-updown-15m-1770690600'', outcomes = ?os,
        clobTokenIds = [''111'', ''222'']\<rparr>"
    by (simp add: market_entry_def up_down_event_def)
  from loop have a2: "parseOutcomes js_ascii (Some ''[\"Up\", \"Down\"]'') (Some ''[0.5'') = Inr []"
    by simp
  from loop have "markets_loop js_ascii up_down_event ''btc-updown-15m-1770690600'' [?bad, ?ok] =
       Inr [market_entry up_down_event ''btc-updown-15m-1770690600'' ?ok ?os]"
    by (rule conjunct2)
  then have a3: "markets_loop js_ascii up_down_event ''btc-updown-15m-1770690600'' [?bad, ?ok] =
       Inr [\<lparr>market_id = ''m-ok'', question = ''BTC up or down?'',
        slug = ''btc-updown-15m-1770690600'', outcomes = ?os,
        clobTokenIds = [''111'', ''222'']\<rparr>]"
    by (simp only: entry)
  from p a2 a3 ex_fetch show ?thesis by (intro conjI)
qed

section \<open>The decision engine\<close>

lemmas decision_eval = parseUpDownResponse_def parsed_reply_def coerce_decision_def or_else_def
  ToNumber_opt_def ToNumber_def num_or_def reply_def missing_decision_def

lemma ex_example: "parseUpDownResponse js_ascii (reply example_content) ''btc-updown-15m-1770690600'' =
   Inr \<lparr>reasoning = JStr ''x'',
        decision = \<lparr>market_slug = ''btc-updown-15m-1770690600'', direction = JStr ''UP'',
                     size_usd = 10, max_loss_usd = 0, edge_prob = 1 / 2\<rparr>\<rparr>"
  by (simp add: decision_eval example_content_def runtime_eval)

lemma ex_sloppy: "parseUpDownResponse js_ascii (reply sloppy_content) ''btc-updown-15m-1770690600'' =
   Inr \<lparr>reasoning = JStr ''x'',
        decision = \<lparr>market_slug = ''btc-updown-15m-1770690600'', direction = JStr ''SIDEWAYS'',
                     size_usd = 5, max_loss_usd = 5, edge_prob = 1 / 2\<rparr>\<rparr>"
  by (simp add: decision_eval sloppy_content_def runtime_eval)

lemma ex_array: "parseUpDownResponse js_ascii (reply array_content) ''btc-updown-15m-1770690600'' =
   Inr \<lparr>reasoning = JStr ''x'',
        decision = \<lparr>market_slug = ''btc-updown-15m-1770690600'', direction = JStr ''NO_BET'',
                     size_usd = 0, max_loss_usd = 0, edge_prob = 1 / 2\<rparr>\<rparr>"
  by (simp add: decision_eval array_content_def runtime_eval index_of_key_def)

lemma ex_missing: "parseUpDownResponse js_ascii (reply ''{\"reasoning\":\"x\"}'') ''btc-updown-15m-1770690600'' =
   Inl missing_decision"
  by (simp add: decision_eval runtime_eval)

lemma ex_null: "parseUpDownResponse js_ascii (reply ''null'') ''s'' = Inl TypeError"
  by (simp add: decision_eval runtime_eval)

lemma ex_hostile: "parseUpDownResponse js_ascii (reply ''{\"decision\":{\"size_usd\":{\"toString\":1}}}'') ''s'' = Inl TypeError"
  by (simp add: decision_eval runtime_eval)


lemma parse_result_fields:
  assumes res: "parseUpDownResponse B msg dflt = Inr out"
    and pr: "parsed_reply B msg = Inr p" and dec: "get_field p ''decision'' = Some d"
  shows "reasoning out = or_else (get_field p ''reasoning'') (JStr [])"
    and "ToString B (or_else (get_field d ''market_slug'') (JStr dflt)) = Inr (market_slug (decision out))"
    and "direction (decision out) = or_else (get_field d ''direction'') (JStr ''NO_BET'')"
    and "\<exists>n. ToNumber_opt B (get_field d ''size_usd'') = Inr n \<and> size_usd (decision out) = num_or n 0"
    and "\<exists>n. ToNumber_opt B (get_field d ''max_loss_usd'') = Inr n \<and> max_loss_usd (decision out) = num_or n 0"
    and "\<exists>n. ToNumber_opt B (get_field d ''edge_prob'') = Inr n \<and> edge_prob (decision out) = num_or n (1 / 2)"
    and "truthy d \<and> typeof_object d"
proof -
  from res pr dec obtain dd where
    cd: "coerce_decision B d dflt = Inr dd"
    and out: "out = \<lparr>reasoning = or_else (get_field p ''reasoning'') (JStr []), decision = dd\<rparr>"
    and td: "truthy d \<and> typeof_object d"
    by (auto simp: parseUpDownResponse_def split: if_splits sum.splits)
  from cd obtain st n1 n2 n3 where
    st: "ToString B (or_else (get_field d ''market_slug'') (JStr dflt)) = Inr st"
    and n1: "ToNumber_opt B (get_field d ''size_usd'') = Inr n1"
    and n2: "ToNumber_opt B (get_field d ''max_loss_usd'') = Inr n2"
    and n3: "ToNumber_opt B (get_field d ''edge_prob'') = Inr n3"
    and dd: "dd = \<lparr>market_slug = st,
                    direction = or_else (get_field d ''direction'') (JStr ''NO_BET''),
                    size_usd = num_or n1 0, max_loss_usd = num_or n2 0,
                    edge_prob = num_or n3 (1 / 2)\<rparr>"
    by (auto simp: coerce_decision_def split: sum.splits)
  show "reasoning out = or_else (get_field p ''reasoning'') (JStr [])" by (simp add: out)
  show "ToString B (or_else (get_field d ''market_slug'') (JStr dflt)) = Inr (market_slug (decision out))"
    by (simp add: out dd st)
  show "direction (decision out) = or_else (get_field d ''direction'') (JStr ''NO_BET'')"
    by (simp add: out dd)
  show "\<exists>n. ToNumber_opt B (get_field d ''size_usd'') = Inr n \<and> size_usd (decision out) = num_or n 0"
    by (simp add: out dd n1)
  show "\<exists>n. ToNumber_opt B (get_field d ''max_loss_usd'') = Inr n \<and> max_loss_usd (decision out) = num_or n 0"
    by (simp add: out dd n2)
  show "\<exists>n. ToNumber_opt B (get_field d ''edge_prob'') = Inr n \<and> edge_prob (decision out) = num_or n (1 / 2)"
    by (simp add: out dd n3)
  show "truthy d \<and> typeof_object d" by (rule td)
qed

lemma num_or_zero: "num_or n 0 = (case n of NaN \<Rightarrow> 0 | Num r \<Rightarrow> r)"
  by (simp add: num_or_def split: jsnum.splits)

text \<open>
  Claim C1, as the code has it.  For every reply that \<^verbatim>\<open>parseUpDownResponse\<close> accepts:
  \<^verbatim>\<open>reasoning\<close> is the empty string when absent; \<^verbatim>\<open>market_slug\<close> is the requested slug
  when absent; \<^verbatim>\<open>direction\<close> is \<^verbatim>\<open>NO_BET\<close> when absent or falsy and is otherwise the
  value received, whether or not it is one of the three directions; \<^verbatim>\<open>size_usd\<close> and
  \<^verbatim>\<open>max_loss_usd\<close> are 0 when the number of the field is \<^verbatim>\<open>NaN\<close> and that number
  otherwise; \<^verbatim>\<open>edge_prob\<close> is 0.5 when the number of the field is \<^verbatim>\<open>NaN\<close> and that
  number when it is not zero.  The example of the specification parses to the decision
  it states.
\<close>

theorem decision_coercion:
  "(parseUpDownResponse B msg dflt = Inr out \<and> parsed_reply B msg = Inr p
      \<and> get_field p ''decision'' = Some d \<longrightarrow>
      (get_field p ''reasoning'' = None \<longrightarrow> reasoning out = JStr [])
      \<and> (get_field d ''market_slug'' = None \<longrightarrow> market_slug (decision out) = dflt)
      \<and> (\<not> truthy_opt (get_field d ''direction'') \<longrightarrow> direction (decision out) = JStr ''NO_BET'')
      \<and> (truthy_opt (get_field d ''direction'') \<longrightarrow>
            get_field d ''direction'' = Some (direction (decision out)))
      \<and> (ToNumber_opt B (get_field d ''size_usd'') = Inr NaN \<longrightarrow> size_usd (decision out) = 0)
      \<and> (ToNumber_opt B (get_field d ''size_usd'') = Inr (Num r1) \<longrightarrow> size_usd (decision out) = r1)
      \<and> (ToNumber_opt B (get_field d ''max_loss_usd'') = Inr NaN \<longrightarrow> max_loss_usd (decision out) = 0)
      \<and> (ToNumber_opt B (get_field d ''max_loss_usd'') = Inr (Num r2) \<longrightarrow>
            max_loss_usd (decision out) = r2)
      \<and> (ToNumber_opt B (get_field d ''edge_prob'') = Inr NaN \<longrightarrow> edge_prob (decision out) = 1 / 2)
      \<and> (ToNumber_opt B (get_field d ''edge_prob'') = Inr (Num r3) \<and> r3 \<noteq> 0 \<longrightarrow>
            edge_prob (decision out) = r3))
   \<and> parseUpDownResponse js_ascii (reply example_content) ''btc-updown-15m-1770690600'' =
       Inr \<lparr>reasoning = JStr ''x'',
            decision = \<lparr>market_slug = ''btc-updown-15m-1770690600'', direction = JStr ''UP'',
                         size_usd = 10, max_loss_usd = 0, edge_prob = 1 / 2\<rparr>\<rparr>"
proof -
  have general: "parseUpDownResponse B msg dflt = Inr out \<and> parsed_reply B msg = Inr p
      \<and> get_field p ''decision'' = Some d \<longrightarrow>
      (get_field p ''reasoning'' = None \<longrightarrow> reasoning out = JStr [])
      \<and> (get_field d ''market_slug'' = None \<longrightarrow> market_slug (decision out) = dflt)
      \<and> (\<not> truthy_opt (get_field d ''direction'') \<longrightarrow> direction (decision out) = JStr ''NO_BET'')
      \<and> (truthy_opt (get_field d ''direction'') \<longrightarrow>
            get_field d ''direction'' = Some (direction (decision out)))
      \<and> (ToNumber_opt B (get_field d ''size_usd'') = Inr NaN \<longrightarrow> size_usd (decision out) = 0)
      \<and> (ToNumber_opt B (get_field d ''size_usd'') = Inr (Num r1) \<longrightarrow> size_usd (decision out) = r1)
      \<and> (ToNumber_opt B (get_field d ''max_loss_usd'') = Inr NaN \<longrightarrow> max_loss_usd (decision out) = 0)
      \<and> (ToNumber_opt B (get_field d ''max_loss_usd'') = Inr (Num r2) \<longrightarrow>
            max_loss_usd (decision out) = r2)
      \<and> (ToNumber_opt B (get_field d ''edge_prob'') = Inr NaN \<longrightarrow> edge_prob (decision out) = 1 / 2)
      \<and> (ToNumber_opt B (get_field d ''edge_prob'') = Inr (Num r3) \<and> r3 \<noteq> 0 \<longrightarrow>
            edge_prob (decision out) = r3)"
  proof (intro impI, elim conjE)
    assume res: "parseUpDownResponse B msg dflt = Inr out"
      and pr: "parsed_reply B msg = Inr p" and dec: "get_field p ''decision'' = Some d"
    note f = parse_result_fields[OF res pr dec]
    have a: "get_field p ''reasoning'' = None \<longrightarrow> reasoning out = JStr []"
      using f(1) by (simp add: or_else_def)
    have b: "get_field d ''market_slug'' = None \<longrightarrow> market_slug (decision out) = dflt"
      using f(2) by (auto simp: or_else_def)
    have c: "\<not> truthy_opt (get_field d ''direction'') \<longrightarrow> direction (decision out) = JStr ''NO_BET''"
      using f(3) by (simp add: or_else_def truthy_opt_def split: option.splits)
    have c': "truthy_opt (get_field d ''direction'') \<longrightarrow>
            get_field d ''direction'' = Some (direction (decision out))"
      using f(3) by (simp add: or_else_def truthy_opt_def split: option.splits)
    have s1: "ToNumber_opt B (get_field d ''size_usd'') = Inr NaN \<longrightarrow> size_usd (decision out) = 0"
      using f(4) by (auto simp: num_or_def)
    have s2: "ToNumber_opt B (get_field d ''size_usd'') = Inr (Num r1) \<longrightarrow> size_usd (decision out) = r1"
      using f(4) by (auto simp: num_or_def)
    have l1: "ToNumber_opt B (get_field d ''max_loss_usd'') = Inr NaN \<longrightarrow> max_loss_usd (decision out) = 0"
      using f(5) by (auto simp: num_or_def)
    have l2: "ToNumber_opt B (get_field d ''max_loss_usd'') = Inr (Num r2) \<longrightarrow>
            max_loss_usd (decision out) = r2"
      using f(5) by (auto simp: num_or_def)
    have e1: "ToNumber_opt B (get_field d ''edge_prob'') = Inr NaN \<longrightarrow> edge_prob (decision out) = 1 / 2"
      using f(6) by (auto simp: num_or_def)
    have e2: "ToNumber_opt B (get_field d ''edge_prob'') = Inr (Num r3) \<and> r3 \<noteq> 0 \<longrightarrow>
            edge_prob (decision out) = r3"
      using f(6) by (auto simp: num_or_def)
    from a b c c' s1 s2 l1 l2 e1 e2
    show "(get_field p ''reasoning'' = None \<longrightarrow> reasoning out = JStr [])
      \<and> (get_field d ''market_slug'' = None \<longrightarrow> market_slug (decision out) = dflt)
      \<and> (\<not> truthy_opt (get_field d ''direction'') \<longrightarrow> direction (decision out) = JStr ''NO_BET'')
      \<and> (truthy_opt (get_field d ''direction'') \<longrightarrow>
            get_field d ''direction'' = Some (direction (decision out)))
      \<and> (ToNumber_opt B (get_field d ''size_usd'') = Inr NaN \<longrightarrow> size_usd (decision out) = 0)
      \<and> (ToNumber_opt B (get_field d ''size_usd'') = Inr (Num r1) \<longrightarrow> size_usd (decision out) = r1)
      \<and> (ToNumber_opt B (get_field d ''max_loss_usd'') = Inr NaN \<longrightarrow> max_loss_usd (decision out) = 0)
      \<and> (ToNumber_opt B (get_field d ''max_loss_usd'') = Inr (Num r2) \<longrightarrow>
            max_loss_usd (decision out) = r2)
      \<and> (ToNumber_opt B (get_field d ''edge_prob'') = Inr NaN \<longrightarrow> edge_prob (decision out) = 1 / 2)
      \<and> (ToNumber_opt B (get_field d ''edge_prob'') = Inr (Num r3) \<and> r3 \<noteq> 0 \<longrightarrow>
            edge_prob (decision out) = r3)"
      by blast
  qed
  from general ex_example show ?thesis by blast
qed


theorem decision_coercion_witness:
  "reasoning \<lparr>reasoning = JStr [],
       decision = \<lparr>market_slug = ''btc-updown-15m-1770690600'', direction = JStr ''NO_BET'',
                    size_usd = 0, max_loss_usd = 0, edge_prob = 1 / 2\<rparr>\<rparr> = JStr []
   \<and> parseUpDownResponse js_ascii (reply bare_content) ''btc-updown-15m-1770690600'' =
       Inr \<lparr>reasoning = JStr [],
            decision = \<lparr>market_slug = ''btc-updown-15m-1770690600'', direction = JStr ''NO_BET'',
                         size_usd = 0, max_loss_usd = 0, edge_prob = 1 / 2\<rparr>\<rparr>
   \<and> ToNumber_opt js_ascii (Some (JStr ''10'')) = Inr (Num 10)
   \<and> ToNumber_opt js_ascii (Some (JStr ''bad'')) = Inr NaN
   \<and> size_usd (decision \<lparr>reasoning = JStr ''x'',
            decision = \<lparr>market_slug = ''btc-updown-15m-1770690600'', direction = JStr ''UP'',
                         size_usd = 10, max_loss_usd = 0, edge_prob = 1 / 2\<rparr>\<rparr>) = 10"
proof -
  let ?slug = "''btc-updown-15m-1770690600''"
  let ?bare = "\<lparr>reasoning = JStr [],
       decision = \<lparr>market_slug = ?slug, direction = JStr ''NO_BET'',
                    size_usd = 0, max_loss_usd = 0, edge_prob = 1 / 2\<rparr>\<rparr>"
  let ?ex = "\<lparr>reasoning = JStr ''x'',
            decision = \<lparr>market_slug = ?slug, direction = JStr ''UP'',
                         size_usd = 10, max_loss_usd = 0, edge_prob = 1 / 2\<rparr>\<rparr>"
  let ?d = "JObj [(''market_slug'', JStr ?slug), (''direction'', JStr ''UP''),
                  (''size_usd'', JStr ''10''), (''max_loss_usd'', JNull), (''edge_prob'', JStr ''bad'')]"
  have b1: "parseUpDownResponse js_ascii (reply bare_content) ?slug = Inr ?bare"
    by (simp add: decision_eval bare_content_def runtime_eval)
  have b2: "parsed_reply js_ascii (reply bare_content) = Inr (JObj [(''decision'', JObj [])])"
    by (simp add: decision_eval bare_content_def runtime_eval)
  have e2: "parsed_reply js_ascii (reply example_content) =
      Inr (JObj [(''reasoning'', JStr ''x''), (''decision'', ?d)])"
    by (simp add: decision_eval example_content_def runtime_eval)
  have n10: "ToNumber_opt js_ascii (Some (JStr ''10'')) = Inr (Num 10)"
    by (simp add: ToNumber_opt_def ToNumber_def runtime_eval)
  have nbad: "ToNumber_opt js_ascii (Some (JStr ''bad'')) = Inr NaN"
    by (simp add: ToNumber_opt_def ToNumber_def runtime_eval)
  have bare: "reasoning ?bare = JStr []"
    using b1 b2
      decision_coercion[where B = js_ascii and msg = "reply bare_content" and dflt = ?slug
        and out = ?bare and p = "JObj [(''decision'', JObj [])]" and d = "JObj []"
        and ?r1.0 = 0 and ?r2.0 = 0 and ?r3.0 = 1]
    by simp
  have ex: "size_usd (decision ?ex) = 10"
    using ex_example e2 n10
      decision_coercion[where B = js_ascii and msg = "reply example_content" and dflt = ?slug
        and out = ?ex and p = "JObj [(''reasoning'', JStr ''x''), (''decision'', ?d)]" and d = ?d
        and ?r1.0 = 10 and ?r2.0 = 0 and ?r3.0 = 1]
    by simp
  from bare b1 n10 nbad ex show ?thesis by (intro conjI)
qed

text \<open>
  A direction outside the three is kept as it is, and an \<^verbatim>\<open>edge_prob\<close> of 0, a number,
  is replaced by 0.5.
\<close>

theorem decision_coercion_counterexample:
  "parseUpDownResponse js_ascii (reply sloppy_content) ''btc-updown-15m-1770690600'' =
     Inr \<lparr>reasoning = JStr ''x'',
          decision = \<lparr>market_slug = ''btc-updown-15m-1770690600'',
                       direction = JStr ''SIDEWAYS'', size_usd = 5, max_loss_usd = 5,
                       edge_prob = 1 / 2\<rparr>\<rparr>
   \<and> JStr ''SIDEWAYS'' \<notin> set [JStr ''UP'', JStr ''DOWN'', JStr ''NO_BET'']
   \<and> ToNumber js_ascii (JNum 0) = Inr (Num 0)"
  using ex_sloppy by (simp add: ToNumber_def)

section \<open>The market slug\<close>

lemma lt10_cases:
  "d < 10 \<Longrightarrow> d = 0 \<or> d = 1 \<or> d = 2 \<or> d = 3 \<or> d = 4 \<or> d = 5 \<or> d = 6 \<or> d = 7 \<or> d = 8 \<or> d = (9::nat)"
  by arith

lemma digit_val_char: "d < 10 \<Longrightarrow> digit_val (digit_char d) = d"
  using lt10_cases[of d] by (auto simp: digit_val_def digit_char_def)

lemma digit_char_not_minus: "d < 10 \<Longrightarrow> digit_char d \<noteq> CHR ''-''"
  using lt10_cases[of d] by (auto simp: digit_char_def)

lemma read_nat_snoc: "read_nat (s @ [c]) = 10 * read_nat s + digit_val c"
  by (simp add: read_nat_def)

lemma read_show: "read_nat (show_nat n) = n"
proof (induction n rule: show_nat.induct)
  case (1 n)
  show ?case
  proof (cases "n < 10")
    case True
    then show ?thesis
      by (simp add: show_nat.simps[of n] read_nat_def digit_val_char)
  next
    case False
    then have ih: "read_nat (show_nat (n div 10)) = n div 10" using 1 by simp
    have "read_nat (show_nat n) = 10 * read_nat (show_nat (n div 10)) + digit_val (digit_char (n mod 10))"
      using False by (simp add: show_nat.simps[of n] read_nat_snoc)
    also have "\<dots> = 10 * (n div 10) + n mod 10"
      by (simp add: ih digit_val_char)
    finally show ?thesis by simp
  qed
qed

lemma show_nat_inj: "show_nat a = show_nat b \<Longrightarrow> a = b"
  by (metis read_show)

lemma show_nat_hd: "show_nat n \<noteq> [] \<and> hd (show_nat n) \<noteq> CHR ''-''"
proof (induction n rule: show_nat.induct)
  case (1 n)
  show ?case
  proof (cases "n < 10")
    case True
    then show ?thesis by (simp add: show_nat.simps[of n] digit_char_not_minus)
  next
    case False
    then show ?thesis using 1 by (simp add: show_nat.simps[of n])
  qed
qed

lemma show_int_mixed: "i < 0 \<Longrightarrow> \<not> j < 0 \<Longrightarrow> show_int i \<noteq> show_int j"
proof
  assume "i < 0" "\<not> j < 0" "show_int i = show_int j"
  then have "CHR ''-'' # show_nat (nat (- i)) = show_nat (nat j)" by (simp add: show_int_def)
  then have "hd (show_nat (nat j)) = CHR ''-''" by (metis list.sel(1))
  then show False using show_nat_hd by blast
qed

lemma show_int_inj: 
  assumes eq: "show_int a = show_int b" 
  shows "a = b"
proof (cases "a < 0")
  case True
  show ?thesis
  proof (cases "b < 0")
    case bt: True
    with True eq have "show_nat (nat (- a)) = show_nat (nat (- b))" by (simp add: show_int_def)
    then have "nat (- a) = nat (- b)" by (rule show_nat_inj)
    with True bt show ?thesis by simp
  next
    case False
    with True show_int_mixed[of a b] eq show ?thesis by simp
  qed
next
  case False
  show ?thesis
  proof (cases "b < 0")
    case True
    with False show_int_mixed[of b a] eq show ?thesis by simp
  next
    case bn: False
    with False eq have "show_nat (nat a) = show_nat (nat b)" by (simp add: show_int_def)
    then have "nat a = nat b" by (rule show_nat_inj)
    with False bn show ?thesis by simp
  qed
qed

lemma window_slug_eq_iff:
  "window_slug ticker t1 = window_slug ticker t2 \<longleftrightarrow> t1 div 900 = t2 div 900"
proof
  assume "window_slug ticker t1 = window_slug ticker t2"
  then have "show_int (roundedTimestamp t1) = show_int (roundedTimestamp t2)"
    by (simp add: window_slug_def)
  then have "roundedTimestamp t1 = roundedTimestamp t2" by (rule show_int_inj)
  then show "t1 div 900 = t2 div 900"
    by (simp add: roundedTimestamp_def FIFTEEN_MINUTES_def)
next
  assume "t1 div 900 = t2 div 900"
  then show "window_slug ticker t1 = window_slug ticker t2"
    by (simp add: window_slug_def roundedTimestamp_def FIFTEEN_MINUTES_def)
qed

lemmas slug_eval = window_slug_def predict_slug_def roundedTimestamp_def FIFTEEN_MINUTES_def
  toLowerCase_def toUpperCase_def to_lower_char_def to_upper_char_def show_int_def
  show_nat.simps digit_char_def


lemma roundedTimestamp_floor:
  "roundedTimestamp t = \<lfloor>(of_int t :: rat) / 900\<rfloor> * 900"
proof -
  have "\<lfloor>(of_int t :: rat) / of_int 900\<rfloor> = t div 900"
    by (rule floor_divide_of_int_eq)
  then show ?thesis by (simp add: roundedTimestamp_def FIFTEEN_MINUTES_def)
qed

text \<open>
  Claim C3, as the code has it.  The slug computed by the orchestrator is the lower-cased
  asset, the text \<^verbatim>\<open>-updown-15m-\<close> and the decimal rendering of
  \<open>floor(t / 900) * 900\<close>.  Two timestamps of one 900-second bucket give the same slug,
  two timestamps of adjacent buckets give different slugs.  For BTC, the timestamps
  1770690605, 1770690899 and 1770690900 all lie in the bucket that starts at 1770690600
  and give \<^verbatim>\<open>btc-updown-15m-1770690600\<close>; the next bucket starts at 1770691500, which
  gives \<^verbatim>\<open>btc-updown-15m-1770691500\<close>.
\<close>

theorem window_slug_buckets:
  "window_slug ticker t =
     toLowerCase ticker @ ''-updown-15m-'' @ show_int (\<lfloor>(of_int t :: rat) / 900\<rfloor> * 900)
   \<and> (t1 div 900 = t2 div 900 \<longrightarrow> window_slug ticker t1 = window_slug ticker t2)
   \<and> (t2 div 900 = t1 div 900 + 1 \<longrightarrow> window_slug ticker t1 \<noteq> window_slug ticker t2)
   \<and> window_slug ''BTC'' 1770690605 = ''btc-updown-15m-1770690600''
   \<and> window_slug ''BTC'' 1770690899 = ''btc-updown-15m-1770690600''
   \<and> window_slug ''BTC'' 1770690900 = ''btc-updown-15m-1770690600''
   \<and> window_slug ''BTC'' 1770691500 = ''btc-updown-15m-1770691500''"
proof -
  have formula: "window_slug ticker t =
     toLowerCase ticker @ ''-updown-15m-'' @ show_int (\<lfloor>(of_int t :: rat) / 900\<rfloor> * 900)"
    by (simp add: window_slug_def roundedTimestamp_floor)
  have same: "t1 div 900 = t2 div 900 \<longrightarrow> window_slug ticker t1 = window_slug ticker t2"
    by (simp add: window_slug_eq_iff)
  have adjacent: "t2 div 900 = t1 div 900 + 1 \<longrightarrow> window_slug ticker t1 \<noteq> window_slug ticker t2"
    by (simp add: window_slug_eq_iff)
  have e1: "window_slug ''BTC'' 1770690605 = ''btc-updown-15m-1770690600''"
    by (simp add: slug_eval)
  have e2: "window_slug ''BTC'' 1770690899 = ''btc-updown-15m-1770690600''"
    by (simp add: slug_eval)
  have e3: "window_slug ''BTC'' 1770690900 = ''btc-updown-15m-1770690600''"
    by (simp add: slug_eval)
  have e4: "window_slug ''BTC'' 1770691500 = ''btc-updown-15m-1770691500''"
    by (simp add: slug_eval)
  from formula same adjacent e1 e2 e3 e4 show ?thesis by blast
qed

theorem window_slug_buckets_witness:
  "(1770690605::int) div 900 = 1770690899 div 900
   \<and> window_slug ''ETH'' 1770690605 = window_slug ''ETH'' 1770690899
   \<and> (1770691500::int) div 900 = 1770691499 div 900 + 1
   \<and> window_slug ''ETH'' 1770691499 \<noteq> window_slug ''ETH'' 1770691500"
proof -
  have a: "(1770690605::int) div 900 = 1770690899 div 900" by simp
  have b: "(1770691500::int) div 900 = 1770691499 div 900 + 1" by simp
  from a b window_slug_buckets[of "''ETH''" 0 1770690605 1770690899]
    window_slug_buckets[of "''ETH''" 0 1770691499 1770691500]
  show ?thesis by blast
qed

text \<open>
  The example of the specification for 1770690900 does not hold: 1770690900 is not a
  multiple of 900, and the slug computed for it is still the one of the bucket that
  starts at 1770690600.
\<close>

theorem window_slug_example_counterexample:
  "window_slug ''BTC'' 1770690900 \<noteq> ''btc-updown-15m-1770690900''
   \<and> predict_slug ''btc'' 1770690900000 = ''btc-updown-15m-1770690600''"
  by (simp add: slug_eval)

end
